theory Spec2Isabelle
  imports Complex_Main "HOL-Library.Char_ord" "HOL-Library.List_Lexorder"
begin

section \<open>Python values and strings\<close>

text \<open>
  Strings are lists of characters; a character stands for a code point below 256.
  \<open>str_of_nat\<close> is Python's \<open>str\<close> on a non-negative integer (decimal digits, no
  sign, no leading zero) and \<open>join\<close> is \<open>sep.join(parts)\<close>.
\<close>

definition digit_char :: "nat \<Rightarrow> char" where
  "digit_char n = char_of (48 + n)"

function str_of_nat :: "nat \<Rightarrow> string" where
  "str_of_nat n =
     (if n < 10 then [digit_char n] else str_of_nat (n div 10) @ [digit_char (n mod 10)])"
  by pat_completeness auto
termination
  by (relation "measure id") auto

fun join :: "string \<Rightarrow> string list \<Rightarrow> string" where
  "join sep [] = []"
| "join sep [x] = x"
| "join sep (x # y # ys) = x @ sep @ join sep (y # ys)"

text \<open>
  A parsed YAML document, the \<open>body\<close> tree of a resource: the values
  \<open>yaml.safe_load\<close> builds. A mapping is an association list in insertion order,
  looked up with \<open>map_of\<close>; its keys are strings. A float is a rational or one of the
  three non-finite values, which is enough for the comparisons the code makes (it does
  no float arithmetic).
\<close>

datatype pyfloat = Finite rat | PosInf | NegInf | NaN

datatype yaml =
    VNull
  | VBool bool
  | VInt int
  | VFloat pyfloat
  | VStr string
  | VList "yaml list"
  | VMap "(string \<times> yaml) list"

text \<open>
  The exceptions the modelled code can meet; a result is \<open>exn + 'a\<close>.
  \<open>RunError\<close> of core/runner.py is raised by the subprocess calls only; what such a
  call, or code that calls one outside a handler, can raise is \<open>raised\<close>.
\<close>

datatype exn =
    OSError string
  | YAMLError string
  | TypeError string
  | AttributeError string
  | AssertionError string
  | ValueError string
  | OverflowError string
  | OtherError string

datatype raised = RunError string | Err exn

section \<open>Risk levels and the report data classes\<close>

text \<open>\<open>RiskLevel\<close> of analysis/risk.py, with the \<open>order\<close> table of \<open>max_risk\<close>.\<close>

datatype RiskLevel = SAFE | WARNING | DANGER

fun order :: "RiskLevel \<Rightarrow> nat" where
  "order SAFE = 0"
| "order WARNING = 1"
| "order DANGER = 2"

record RiskAnnotation =
  ra_level :: RiskLevel
  ra_rule :: string
  ra_message :: string
  ra_path :: string

text \<open>
  Python's \<open>max(xs, key=k)\<close> on a non-empty list: the first element whose key is
  maximal. The accumulator is replaced only by a strictly larger key.
\<close>

fun py_max_by :: "('a \<Rightarrow> nat) \<Rightarrow> 'a \<Rightarrow> 'a list \<Rightarrow> 'a" where
  "py_max_by k best [] = best"
| "py_max_by k best (x # xs) = py_max_by k (if k best < k x then x else best) xs"

text \<open>\<open>FieldChange\<close> of diff/engine.py: one atomic difference.\<close>

record FieldChange =
  fc_path :: string
  fc_old_value :: yaml
  fc_new_value :: yaml
  fc_change_type :: string

text \<open>crd/report.py.\<close>

record CrdChangeDetail =
  cd_name :: string
  cd_status :: string
  cd_changes :: "FieldChange list"
  cd_risk_annotations :: "RiskAnnotation list"
  cd_stored_version_warnings :: "string list"
  cd_schema_validation_errors :: "string list"
  cd_ownership_conflict :: "string option"

definition max_risk :: "CrdChangeDetail \<Rightarrow> RiskLevel" where
  "max_risk d =
     (case cd_risk_annotations d of
        [] \<Rightarrow> SAFE
      | a # as \<Rightarrow> ra_level (py_max_by (\<lambda>a. order (ra_level a)) a as))"

record NewCrdInfo =
  nc_name :: string
  nc_group :: yaml
  nc_kind :: yaml
  nc_versions :: "yaml list"

record PolicyResult =
  pr_mode :: string
  pr_blocked :: bool
  pr_message :: string
  pr_exit_code :: int

record CrdReport =
  crds :: "CrdChangeDetail list"
  new_crds :: "NewCrdInfo list"
  policy_result :: "PolicyResult option"
  warnings :: "string list"

definition empty_report :: CrdReport where
  "empty_report = \<lparr>crds = [], new_crds = [], policy_result = None, warnings = []\<rparr>"

section \<open>Policy evaluation (crd/policy.py)\<close>

datatype CrdPolicyMode = IGNORE | WARN | FAIL

fun mode_value :: "CrdPolicyMode \<Rightarrow> string" where
  "mode_value IGNORE = ''ignore''"
| "mode_value WARN = ''warn''"
| "mode_value FAIL = ''fail''"

definition danger_crds :: "CrdReport \<Rightarrow> CrdChangeDetail list" where
  "danger_crds report = filter (\<lambda>c. max_risk c = DANGER) (crds report)"

definition warning_crds :: "CrdReport \<Rightarrow> CrdChangeDetail list" where
  "warning_crds report = filter (\<lambda>c. max_risk c = WARNING) (crds report)"

definition names_of :: "CrdChangeDetail list \<Rightarrow> string" where
  "names_of cs = join '', '' (map cd_name cs)"

definition warn_parts :: "CrdReport \<Rightarrow> string list" where
  "warn_parts report =
     (if danger_crds report \<noteq> []
      then [str_of_nat (length (danger_crds report)) @ '' CRD(s) with DANGER-level changes: ''
              @ names_of (danger_crds report)]
      else [])
     @ (if warning_crds report \<noteq> []
        then [str_of_nat (length (warning_crds report)) @ '' CRD(s) with WARNING-level changes: ''
                @ names_of (warning_crds report)]
        else [])"

definition evaluate_policy :: "CrdReport \<Rightarrow> CrdPolicyMode \<Rightarrow> PolicyResult" where
  "evaluate_policy report mode =
     (if mode = IGNORE then
        \<lparr>pr_mode = mode_value mode, pr_blocked = False,
         pr_message = ''CRD policy: ignore (all CRD issues suppressed)'', pr_exit_code = 0\<rparr>
      else if mode = WARN then
        \<lparr>pr_mode = mode_value mode, pr_blocked = False,
         pr_message =
           (if warn_parts report = [] then ''CRD policy: warn (no issues found)''
            else ''CRD policy: warn - '' @ join ''; '' (warn_parts report)),
         pr_exit_code = 0\<rparr>
      else if danger_crds report \<noteq> [] then
        \<lparr>pr_mode = mode_value mode, pr_blocked = True,
         pr_message = ''CRD policy: fail - '' @ str_of_nat (length (danger_crds report))
           @ '' CRD(s) with DANGER-level changes: '' @ names_of (danger_crds report),
         pr_exit_code = 1\<rparr>
      else if warning_crds report \<noteq> [] then
        \<lparr>pr_mode = mode_value mode, pr_blocked = False,
         pr_message = ''CRD policy: fail (passed) - '' @ str_of_nat (length (warning_crds report))
           @ '' CRD(s) with WARNING-level changes: '' @ names_of (warning_crds report),
         pr_exit_code = 0\<rparr>
      else
        \<lparr>pr_mode = mode_value mode, pr_blocked = False,
         pr_message = ''CRD policy: fail (passed) - no issues found'', pr_exit_code = 0\<rparr>)"

section \<open>The regular expressions of the classifier\<close>

text \<open>
  The patterns of crd/classifier.py use literals, the classes \<open>\d\<close>, \<open>\w\<close> and
  \<open>.\<close> under \<open>+\<close> and \<open>*\<close>, an alternation of literals, and the anchors
  \<open>^\<close> and \<open>$\<close>. A pattern is a list of items; matching an item at the front of a
  string gives every remainder a match can leave, so a pattern matches when some choice
  of remainders goes through, which is what the backtracking of \<open>re\<close> decides.

  On code points below 256, \<open>\d\<close> is the ten ASCII digits, \<open>\w\<close> is the ASCII
  letters, digits and underscore together with the Latin-1 letters and numeric signs
  that \<open>str.isalnum\<close> accepts, and \<open>.\<close> is any character but the newline.
\<close>

datatype atom = Digit | Word | Dot

datatype item = Lit string | Plus atom | Star atom | Alts "string list"

definition newline :: char where
  "newline = CHR 0x0A"

definition is_digit :: "char \<Rightarrow> bool" where
  "is_digit c = (c \<in> set ''0123456789'')"

definition is_word :: "char \<Rightarrow> bool" where
  "is_word c =
     (c \<in> set ''abcdefghijklmnopqrstuvwxyzABCDEFGHIJKLMNOPQRSTUVWXYZ0123456789_'' \<or>
      (of_char c :: nat) \<in> {170, 178, 179, 181, 185, 186, 188, 189, 190} \<or>
      (192 \<le> (of_char c :: nat) \<and> (of_char c :: nat) \<noteq> 215 \<and> (of_char c :: nat) \<noteq> 247))"

fun atom_ok :: "atom \<Rightarrow> char \<Rightarrow> bool" where
  "atom_ok Digit c = is_digit c"
| "atom_ok Word c = is_word c"
| "atom_ok Dot c = (c \<noteq> newline)"

text \<open>The remainders after one, two, ... characters of the class.\<close>

fun plus_rems :: "atom \<Rightarrow> string \<Rightarrow> string list" where
  "plus_rems a [] = []"
| "plus_rems a (c # cs) = (if atom_ok a c then cs # plus_rems a cs else [])"

definition lit_rems :: "string \<Rightarrow> string \<Rightarrow> string list" where
  "lit_rems l s = (if take (length l) s = l then [drop (length l) s] else [])"

fun match_item :: "item \<Rightarrow> string \<Rightarrow> string list" where
  "match_item (Lit l) s = lit_rems l s"
| "match_item (Plus a) s = plus_rems a s"
| "match_item (Star a) s = s # plus_rems a s"
| "match_item (Alts ls) s = concat (map (\<lambda>l. lit_rems l s) ls)"

fun match_items :: "item list \<Rightarrow> string \<Rightarrow> string list" where
  "match_items [] s = [s]"
| "match_items (i # is) s = concat (map (match_items is) (match_item i s))"

text \<open>
  \<open>re.match(p, s)\<close> matches at the start of the string; with a final \<open>$\<close> the match
  must stop at the end of the string or just before a newline that ends it.
  \<open>re.search\<close> tries every start position.
\<close>

definition re_match :: "item list \<Rightarrow> string \<Rightarrow> bool" where
  "re_match p s = (match_items p s \<noteq> [])"

definition at_end :: "string \<Rightarrow> bool" where
  "at_end r = (r = [] \<or> r = [newline])"

definition re_match_end :: "item list \<Rightarrow> string \<Rightarrow> bool" where
  "re_match_end p s = list_ex at_end (match_items p s)"

fun tails :: "string \<Rightarrow> string list" where
  "tails [] = [[]]"
| "tails (c # cs) = (c # cs) # tails cs"

definition re_search :: "item list \<Rightarrow> string \<Rightarrow> bool" where
  "re_search p s = list_ex (re_match p) (tails s)"

definition re_search_end :: "item list \<Rightarrow> string \<Rightarrow> bool" where
  "re_search_end p s = list_ex (re_match_end p) (tails s)"

text \<open>The patterns, in the order of the source.\<close>

definition rx_metadata :: "item list" where
  "rx_metadata = [Lit ''metadata.'', Alts [''annotations'', ''labels''], Lit ''.'']"

definition rx_printer_columns :: "item list" where
  "rx_printer_columns = [Lit ''spec.versions['', Plus Digit, Lit ''].additionalPrinterColumns'']"

definition rx_version :: "item list" where
  "rx_version = [Lit ''spec.versions['', Plus Digit, Lit '']'']"

definition rx_nested_property :: "item list" where
  "rx_nested_property =
     [Lit ''spec.versions['', Plus Digit, Lit ''].schema.openAPIV3Schema.properties.'',
      Plus Word, Lit ''.properties.'', Plus Word]"

definition rx_dot_required :: "item list" where
  "rx_dot_required = [Lit ''.required'']"

definition rx_schema_required :: "item list" where
  "rx_schema_required =
     [Lit ''spec.versions['', Plus Digit, Lit ''].schema.'', Star Dot, Lit ''.required'']"

definition rx_schema_property :: "item list" where
  "rx_schema_property =
     [Lit ''spec.versions['', Plus Digit, Lit ''].schema.'', Star Dot, Lit ''.properties.'',
      Plus Word]"

text \<open>\<open>spec\.versions\[\d+\]\.schema\..*\.properties\.\w+\.\<close> followed by a keyword.\<close>

definition rx_property_field :: "string list \<Rightarrow> item list" where
  "rx_property_field kws = rx_schema_property @ [Lit ''.'', Alts kws]"

definition rx_webhook :: "item list" where
  "rx_webhook = [Lit ''spec.conversion.webhook.'']"

section \<open>The CRD classifier (crd/classifier.py)\<close>

definition annotation :: "RiskLevel \<Rightarrow> string \<Rightarrow> string \<Rightarrow> string \<Rightarrow> RiskAnnotation" where
  "annotation level rule message path =
     \<lparr>ra_level = level, ra_rule = rule, ra_message = message, ra_path = path\<rparr>"

text \<open>
  \<open>_classify_single\<close>: the chain of guarded returns, first match wins. \<open>pystr\<close> is
  Python's \<open>str\<close> on a YAML value, which formats the old and new value in two messages.
\<close>

definition classify_single :: "(yaml \<Rightarrow> string) \<Rightarrow> FieldChange \<Rightarrow> RiskAnnotation" where
  "classify_single pystr fc =
    (let path = fc_path fc; change_type = fc_change_type fc in
     if re_match rx_metadata path then
       annotation SAFE ''crd_metadata_change'' (''Metadata change at '' @ [CHR 0x27] @ path @ [CHR 0x27]) path
     else if re_search rx_printer_columns path then
       annotation SAFE ''crd_printer_columns''
         (''Printer column change at '' @ [CHR 0x27] @ path @ [CHR 0x27]) path
     else if re_match_end rx_version path \<and> change_type = ''item_added'' then
       annotation SAFE ''crd_version_added'' ''New CRD version added'' path
     else if re_search rx_nested_property path \<and> change_type = ''item_added''
               \<and> \<not> re_search rx_dot_required path then
       annotation SAFE ''crd_optional_property_added''
         (''New optional property added at '' @ [CHR 0x27] @ path @ [CHR 0x27]) path
     else if re_match_end rx_version path \<and> change_type = ''item_removed'' then
       annotation DANGER ''crd_version_removed'' ''CRD version removed'' path
     else if re_search rx_schema_required path \<and> change_type = ''item_added'' then
       annotation DANGER ''crd_required_field_added''
         (''New required field added at '' @ [CHR 0x27] @ path @ [CHR 0x27]) path
     else if re_search_end rx_schema_property path \<and> change_type = ''item_removed'' then
       annotation DANGER ''crd_property_removed''
         (''Schema property removed at '' @ [CHR 0x27] @ path @ [CHR 0x27]) path
     else if re_search_end (rx_property_field [''type'']) path \<and> change_type = ''value_changed'' then
       annotation DANGER ''crd_type_changed''
         (''Property type changed at '' @ [CHR 0x27] @ path @ [CHR 0x27]) path
     else if path = ''spec.scope'' \<and> change_type = ''value_changed'' then
       annotation DANGER ''crd_scope_changed''
         (''CRD scope changed from '' @ [CHR 0x27] @ pystr (fc_old_value fc) @ [CHR 0x27]
            @ '' to '' @ [CHR 0x27] @ pystr (fc_new_value fc) @ [CHR 0x27]) path
     else if path = ''spec.conversion.strategy'' \<and> change_type = ''value_changed'' then
       annotation DANGER ''crd_conversion_strategy_changed''
         (''Conversion strategy changed from '' @ [CHR 0x27] @ pystr (fc_old_value fc) @ [CHR 0x27]
            @ '' to '' @ [CHR 0x27] @ pystr (fc_new_value fc) @ [CHR 0x27]) path
     else if re_search_end (rx_property_field [''default'']) path \<and> change_type = ''value_changed'' then
       annotation WARNING ''crd_default_changed''
         (''Default value changed at '' @ [CHR 0x27] @ path @ [CHR 0x27]) path
     else if re_search_end (rx_property_field [''pattern'']) path \<and> change_type = ''value_changed'' then
       annotation WARNING ''crd_pattern_changed''
         (''Validation pattern changed at '' @ [CHR 0x27] @ path @ [CHR 0x27]) path
     else if re_search_end (rx_property_field [''minimum'', ''maximum'']) path
               \<and> change_type = ''value_changed'' then
       annotation WARNING ''crd_range_changed''
         (''Validation range changed at '' @ [CHR 0x27] @ path @ [CHR 0x27]) path
     else if re_search (rx_property_field [''enum'']) path then
       annotation WARNING ''crd_enum_changed''
         (''Enum values changed at '' @ [CHR 0x27] @ path @ [CHR 0x27]) path
     else if re_match rx_webhook path then
       annotation WARNING ''crd_webhook_changed''
         (''Conversion webhook configuration changed at '' @ [CHR 0x27] @ path @ [CHR 0x27]) path
     else if re_search rx_schema_required path \<and> change_type = ''item_removed'' then
       annotation SAFE ''crd_required_field_removed''
         (''Required field constraint removed at '' @ [CHR 0x27] @ path @ [CHR 0x27]) path
     else if re_search rx_schema_required path \<and> change_type = ''value_changed'' then
       annotation DANGER ''crd_required_changed''
         (''Required fields changed at '' @ [CHR 0x27] @ path @ [CHR 0x27]) path
     else
       annotation WARNING ''crd_unknown_change''
         (''Unknown CRD change at '' @ [CHR 0x27] @ path @ [CHR 0x27]) path)"

text \<open>
  The guards of the seventeen specific rules, in the order of the source: a change
  satisfies one of them or reaches the final \<open>return\<close> of \<open>_classify_single\<close>.
\<close>

definition specific_rule_applies :: "FieldChange \<Rightarrow> bool" where
  "specific_rule_applies fc =
    (let path = fc_path fc; change_type = fc_change_type fc in
     re_match rx_metadata path \<or>
     re_search rx_printer_columns path \<or>
     (re_match_end rx_version path \<and> change_type = ''item_added'') \<or>
     (re_search rx_nested_property path \<and> change_type = ''item_added''
        \<and> \<not> re_search rx_dot_required path) \<or>
     (re_match_end rx_version path \<and> change_type = ''item_removed'') \<or>
     (re_search rx_schema_required path \<and> change_type = ''item_added'') \<or>
     (re_search_end rx_schema_property path \<and> change_type = ''item_removed'') \<or>
     (re_search_end (rx_property_field [''type'']) path \<and> change_type = ''value_changed'') \<or>
     (path = ''spec.scope'' \<and> change_type = ''value_changed'') \<or>
     (path = ''spec.conversion.strategy'' \<and> change_type = ''value_changed'') \<or>
     (re_search_end (rx_property_field [''default'']) path \<and> change_type = ''value_changed'') \<or>
     (re_search_end (rx_property_field [''pattern'']) path \<and> change_type = ''value_changed'') \<or>
     (re_search_end (rx_property_field [''minimum'', ''maximum'']) path
        \<and> change_type = ''value_changed'') \<or>
     re_search (rx_property_field [''enum'']) path \<or>
     re_match rx_webhook path \<or>
     (re_search rx_schema_required path \<and> change_type = ''item_removed'') \<or>
     (re_search rx_schema_required path \<and> change_type = ''value_changed''))"

text \<open>\<open>classify_crd_changes\<close>: the loop that appends one annotation per change.\<close>

fun classify_loop ::
  "(yaml \<Rightarrow> string) \<Rightarrow> RiskAnnotation list \<Rightarrow> FieldChange list \<Rightarrow> RiskAnnotation list" where
  "classify_loop pystr annotations [] = annotations"
| "classify_loop pystr annotations (fc # fcs) =
     classify_loop pystr (annotations @ [classify_single pystr fc]) fcs"

definition classify_crd_changes :: "(yaml \<Rightarrow> string) \<Rightarrow> FieldChange list \<Rightarrow> RiskAnnotation list" where
  "classify_crd_changes pystr changes = classify_loop pystr [] changes"

text \<open>The rule identifiers of the table, each with the level it is returned with.\<close>

definition crd_rules :: "(string \<times> RiskLevel) list" where
  "crd_rules =
     [(''crd_metadata_change'', SAFE), (''crd_printer_columns'', SAFE),
      (''crd_version_added'', SAFE), (''crd_optional_property_added'', SAFE),
      (''crd_version_removed'', DANGER), (''crd_required_field_added'', DANGER),
      (''crd_property_removed'', DANGER), (''crd_type_changed'', DANGER),
      (''crd_scope_changed'', DANGER), (''crd_conversion_strategy_changed'', DANGER),
      (''crd_default_changed'', WARNING), (''crd_pattern_changed'', WARNING),
      (''crd_range_changed'', WARNING), (''crd_enum_changed'', WARNING),
      (''crd_webhook_changed'', WARNING), (''crd_required_field_removed'', SAFE),
      (''crd_required_changed'', DANGER), (''crd_unknown_change'', WARNING)]"

section \<open>Python operations on YAML values\<close>

text \<open>
  The code is dynamically typed: a method call on a value of the wrong type raises
  \<open>AttributeError\<close>, an iteration or comparison on one raises \<open>TypeError\<close>. Each
  operation below returns the exception as a value where Python raises it.

  \<open>str\<close> and \<open>repr\<close> of floats, lists and dicts, \<open>repr\<close> of strings, and
  \<open>re.match\<close> on a pattern taken from a schema are functions of the Python runtime;
  they are parameters (\<open>pyrt\<close>). \<open>re.match(p, s)\<close> compiles \<open>p\<close> and runs the
  compiled pattern on \<open>s\<close>. Compiling gives a matcher, or raises \<open>re.error\<close>, or
  raises another exception: \<open>OverflowError\<close> for a repeat count beyond the limit of
  the engine, as in \<open>a{4294967296}\<close>, which is not a subclass of \<open>re.error\<close>.
\<close>

datatype regex = Matcher "string \<Rightarrow> bool" | ReError | ReRaises exn

definition squote :: "string \<Rightarrow> string" where
  "squote s = [CHR 0x27] @ s @ [CHR 0x27]"

definition str_of_int :: "int \<Rightarrow> string" where
  "str_of_int i = (if i < 0 then ''-'' @ str_of_nat (nat (- i)) else str_of_nat (nat i))"

record pyrt =
  rt_str :: "yaml \<Rightarrow> string"
  rt_repr :: "yaml \<Rightarrow> string"
  rt_re_compile :: "string \<Rightarrow> regex"

fun py_str :: "pyrt \<Rightarrow> yaml \<Rightarrow> string" where
  "py_str rt VNull = ''None''"
| "py_str rt (VBool b) = (if b then ''True'' else ''False'')"
| "py_str rt (VInt i) = str_of_int i"
| "py_str rt (VStr s) = s"
| "py_str rt v = rt_str rt v"

fun py_repr :: "pyrt \<Rightarrow> yaml \<Rightarrow> string" where
  "py_repr rt VNull = ''None''"
| "py_repr rt (VBool b) = (if b then ''True'' else ''False'')"
| "py_repr rt (VInt i) = str_of_int i"
| "py_repr rt v = rt_repr rt v"

fun type_name :: "yaml \<Rightarrow> string" where
  "type_name VNull = ''NoneType''"
| "type_name (VBool b) = ''bool''"
| "type_name (VInt i) = ''int''"
| "type_name (VFloat f) = ''float''"
| "type_name (VStr s) = ''str''"
| "type_name (VList xs) = ''list''"
| "type_name (VMap m) = ''dict''"

fun truthy :: "yaml \<Rightarrow> bool" where
  "truthy VNull = False"
| "truthy (VBool b) = b"
| "truthy (VInt i) = (i \<noteq> 0)"
| "truthy (VFloat f) = (f \<noteq> Finite 0)"
| "truthy (VStr s) = (s \<noteq> [])"
| "truthy (VList xs) = (xs \<noteq> [])"
| "truthy (VMap m) = (m \<noteq> [])"

fun num_of :: "yaml \<Rightarrow> pyfloat option" where
  "num_of (VBool b) = Some (Finite (if b then 1 else 0))"
| "num_of (VInt i) = Some (Finite (of_int i))"
| "num_of (VFloat f) = Some f"
| "num_of v = None"

fun pf_eq :: "pyfloat \<Rightarrow> pyfloat \<Rightarrow> bool" where
  "pf_eq (Finite a) (Finite b) = (a = b)"
| "pf_eq PosInf PosInf = True"
| "pf_eq NegInf NegInf = True"
| "pf_eq a b = False"

fun pf_lt :: "pyfloat \<Rightarrow> pyfloat \<Rightarrow> bool" where
  "pf_lt (Finite a) (Finite b) = (a < b)"
| "pf_lt NaN b = False"
| "pf_lt a NaN = False"
| "pf_lt a NegInf = False"
| "pf_lt PosInf b = False"
| "pf_lt a PosInf = True"
| "pf_lt NegInf b = True"

lemma size_map_of [termination_simp]:
  "map_of m k = Some v \<Longrightarrow> size v < Suc (size_list (size_prod (\<lambda>x. 0) size) m)"
  by (induction m) (auto split: if_splits)

lemma size_elem:
  "x \<in> set xs \<Longrightarrow> size (x::yaml) < Suc (size_list size xs)"
  by (induction xs) auto


fun py_eq :: "yaml \<Rightarrow> yaml \<Rightarrow> bool" where
  "py_eq (VList xs) (VList ys) = list_all2 py_eq xs ys"
| "py_eq (VMap m) (VMap n) =
     (length m = length n \<and>
      list_all (\<lambda>(k, v). list_ex (\<lambda>(k', v'). k = k' \<and> py_eq v v') n) m)"
| "py_eq VNull VNull = True"
| "py_eq (VStr s) (VStr t) = (s = t)"
| "py_eq a b =
     (case (num_of a, num_of b) of (Some x, Some y) \<Rightarrow> pf_eq x y | _ \<Rightarrow> False)"


definition no_attribute :: "yaml \<Rightarrow> string \<Rightarrow> exn" where
  "no_attribute v attr =
     AttributeError (squote (type_name v) @ '' object has no attribute '' @ squote attr)"

definition unhashable :: "yaml \<Rightarrow> exn" where
  "unhashable v = TypeError (''unhashable type: '' @ squote (type_name v))"

fun hashable :: "yaml \<Rightarrow> bool" where
  "hashable (VList xs) = False"
| "hashable (VMap m) = False"
| "hashable v = True"

text \<open>\<open>d.get(key, default)\<close>; only a dict has the method.\<close>

fun dict_get :: "yaml \<Rightarrow> string \<Rightarrow> yaml \<Rightarrow> exn + yaml" where
  "dict_get (VMap m) key dflt = Inr (case map_of m key of None \<Rightarrow> dflt | Some v \<Rightarrow> v)"
| "dict_get v key dflt = Inl (no_attribute v ''get'')"

text \<open>\<open>for x in v\<close>: the elements of a list, the keys of a dict, the characters of a string.\<close>

fun py_iter :: "yaml \<Rightarrow> exn + yaml list" where
  "py_iter (VList xs) = Inr xs"
| "py_iter (VMap m) = Inr (map (\<lambda>(k, v). VStr k) m)"
| "py_iter (VStr s) = Inr (map (\<lambda>c. VStr [c]) s)"
| "py_iter v = Inl (TypeError (squote (type_name v) @ '' object is not iterable''))"

definition is_substring :: "string \<Rightarrow> string \<Rightarrow> bool" where
  "is_substring s t = list_ex (\<lambda>u. take (length s) u = s) (tails t)"

text \<open>\<open>key in d\<close> for a dict \<open>d\<close> with entries \<open>m\<close>.\<close>

definition in_dict :: "yaml \<Rightarrow> (string \<times> yaml) list \<Rightarrow> exn + bool" where
  "in_dict key m =
     (if \<not> hashable key then Inl (unhashable key)
      else Inr (case key of VStr k \<Rightarrow> k \<in> set (map fst m) | _ \<Rightarrow> False))"

text \<open>\<open>item in container\<close>.\<close>

fun py_contains :: "yaml \<Rightarrow> yaml \<Rightarrow> exn + bool" where
  "py_contains (VList xs) item = Inr (list_ex (py_eq item) xs)"
| "py_contains (VMap m) item = in_dict item m"
| "py_contains (VStr t) item =
     (case item of
        VStr s \<Rightarrow> Inr (is_substring s t)
      | _ \<Rightarrow> Inl (TypeError (squote ''in <string>'' @ '' requires string as left operand, not ''
                 @ type_name item)))"
| "py_contains c item = Inl (TypeError (''argument of type '' @ squote (type_name c) @ '' is not iterable''))"

text \<open>\<open>a < b\<close> and \<open>a > b\<close> where \<open>a\<close> is a number (bool, int or float).\<close>

definition py_lt :: "yaml \<Rightarrow> yaml \<Rightarrow> exn + bool" where
  "py_lt a b =
     (case (num_of a, num_of b) of
        (Some x, Some y) \<Rightarrow> Inr (pf_lt x y)
      | _ \<Rightarrow> Inl (TypeError (squote ''<'' @ '' not supported between instances of ''
                 @ squote (type_name a) @ '' and '' @ squote (type_name b))))"

definition py_gt :: "yaml \<Rightarrow> yaml \<Rightarrow> exn + bool" where
  "py_gt a b =
     (case (num_of a, num_of b) of
        (Some x, Some y) \<Rightarrow> Inr (pf_lt y x)
      | _ \<Rightarrow> Inl (TypeError (squote ''>'' @ '' not supported between instances of ''
                 @ squote (type_name a) @ '' and '' @ squote (type_name b))))"

fun is_str :: "yaml \<Rightarrow> bool" where
  "is_str (VStr s) = True"
| "is_str v = False"

fun is_int :: "yaml \<Rightarrow> bool" where
  "is_int (VInt i) = True"
| "is_int (VBool b) = True"
| "is_int v = False"

fun is_float :: "yaml \<Rightarrow> bool" where
  "is_float (VFloat f) = True"
| "is_float v = False"

fun is_bool :: "yaml \<Rightarrow> bool" where
  "is_bool (VBool b) = True"
| "is_bool v = False"

fun is_dict :: "yaml \<Rightarrow> bool" where
  "is_dict (VMap m) = True"
| "is_dict v = False"

fun is_list :: "yaml \<Rightarrow> bool" where
  "is_list (VList xs) = True"
| "is_list v = False"

section \<open>The schema validator (crd/schema_validator.py)\<close>

text \<open>\<open>_check_type\<close>: the lookup in \<open>type_map\<close> hashes the schema type.\<close>

definition check_type :: "yaml \<Rightarrow> yaml \<Rightarrow> exn + bool" where
  "check_type value schema_type =
     (if value = VNull then Inr True
      else if \<not> hashable schema_type then Inl (unhashable schema_type)
      else if schema_type \<notin> VStr ` {''string'', ''integer'', ''number'', ''boolean'', ''object'', ''array''}
        then Inr True
      else if schema_type = VStr ''integer'' \<and> is_bool value then Inr False
      else Inr (if schema_type = VStr ''string'' then is_str value
                else if schema_type = VStr ''integer'' then is_int value
                else if schema_type = VStr ''number'' then is_int value \<or> is_float value
                else if schema_type = VStr ''boolean'' then is_bool value
                else if schema_type = VStr ''object'' then is_dict value
                else is_list value))"

definition bindE :: "'e + 'a \<Rightarrow> ('a \<Rightarrow> 'e + 'b) \<Rightarrow> 'e + 'b" where
  "bindE m f = (case m of Inl e \<Rightarrow> Inl e | Inr x \<Rightarrow> f x)"

lemma bindE_cong [fundef_cong]:
  "m = m' \<Longrightarrow> (\<And>x. m' = Inr x \<Longrightarrow> f x = g x) \<Longrightarrow> bindE m f = bindE m' g"
  by (auto simp: bindE_def split: sum.splits)

text \<open>A loop that extends a list with what each round returns; a raise ends it.\<close>

fun collect :: "('a \<Rightarrow> 'e + 'b list) \<Rightarrow> 'a list \<Rightarrow> 'e + 'b list" where
  "collect f [] = Inr []"
| "collect f (x # xs) = bindE (f x) (\<lambda>es. bindE (collect f xs) (\<lambda>es'. Inr (es @ es')))"

lemma collect_cong [fundef_cong]:
  "xs = ys \<Longrightarrow> (\<And>x. x \<in> set ys \<Longrightarrow> f x = g x) \<Longrightarrow> collect f xs = collect g ys"
  by (induction ys arbitrary: xs) (auto cong: bindE_cong)

definition at_path :: "string \<Rightarrow> string \<Rightarrow> string" where
  "at_path path reason = ''At '' @ squote path @ '': '' @ reason"

definition child_path :: "string \<Rightarrow> string \<Rightarrow> string" where
  "child_path path key = (if path \<noteq> [] then path @ ''.'' @ key else key)"

text \<open>
  The checks of a node that do not recurse: enum, pattern, minimum, maximum. The handler
  around \<open>re.match\<close> catches \<open>re.error\<close> only; any other exception leaves the
  validator.
\<close>

definition enum_errors :: "pyrt \<Rightarrow> yaml \<Rightarrow> (string \<times> yaml) list \<Rightarrow> string \<Rightarrow> exn + string list" where
  "enum_errors rt value sm path =
     (case map_of sm ''enum'' of
        None \<Rightarrow> Inr []
      | Some enum \<Rightarrow>
          bindE (py_contains enum value) (\<lambda>found.
            Inr (if found then []
                 else [at_path path (''value '' @ py_repr rt value @ '' not in enum '' @ py_str rt enum)])))"

definition pattern_errors :: "pyrt \<Rightarrow> yaml \<Rightarrow> (string \<times> yaml) list \<Rightarrow> string \<Rightarrow> exn + string list" where
  "pattern_errors rt value sm path =
     (case (map_of sm ''pattern'', value) of
        (Some pattern, VStr s) \<Rightarrow>
          (case pattern of
             VStr p \<Rightarrow>
               (case rt_re_compile rt p of
                  Matcher m \<Rightarrow>
                    Inr (if \<not> m s
                         then [at_path path (''value '' @ squote s @ '' does not match pattern '' @ squote p)]
                         else [])
                | ReError \<Rightarrow> Inr []
                | ReRaises e \<Rightarrow> Inl e)
           | _ \<Rightarrow> Inl (TypeError ''first argument must be string or compiled pattern''))
      | _ \<Rightarrow> Inr [])"

definition minimum_errors :: "pyrt \<Rightarrow> yaml \<Rightarrow> (string \<times> yaml) list \<Rightarrow> string \<Rightarrow> exn + string list" where
  "minimum_errors rt value sm path =
     (case map_of sm ''minimum'' of
        Some minimum \<Rightarrow>
          (if is_int value \<or> is_float value then
             bindE (py_lt value minimum) (\<lambda>below.
               Inr (if below
                    then [at_path path (''value '' @ py_str rt value @ '' < minimum '' @ py_str rt minimum)]
                    else []))
           else Inr [])
      | None \<Rightarrow> Inr [])"

definition maximum_errors :: "pyrt \<Rightarrow> yaml \<Rightarrow> (string \<times> yaml) list \<Rightarrow> string \<Rightarrow> exn + string list" where
  "maximum_errors rt value sm path =
     (case map_of sm ''maximum'' of
        Some maximum \<Rightarrow>
          (if is_int value \<or> is_float value then
             bindE (py_gt value maximum) (\<lambda>above.
               Inr (if above
                    then [at_path path (''value '' @ py_str rt value @ '' > maximum '' @ py_str rt maximum)]
                    else []))
           else Inr [])
      | None \<Rightarrow> Inr [])"

text \<open>The loop over \<open>required\<close>: one error for each entry that is not a key of the object.\<close>

definition required_errors :: "pyrt \<Rightarrow> (string \<times> yaml) list \<Rightarrow> yaml \<Rightarrow> string \<Rightarrow> exn + string list" where
  "required_errors rt vm required path =
     bindE (py_iter required) (\<lambda>reqs.
       collect (\<lambda>req. bindE (in_dict req vm) (\<lambda>present.
                  Inr (if present then []
                       else [at_path path (''missing required field '' @ squote (py_str rt req))])))
         reqs)"

text \<open>\<open>properties.items()\<close>; only a dict has the method.\<close>

fun dict_items :: "yaml \<Rightarrow> exn + (string \<times> yaml) list" where
  "dict_items (VMap m) = Inr m"
| "dict_items v = Inl (no_attribute v ''items'')"

definition envelope_keys :: "string list" where
  "envelope_keys = [''apiVersion'', ''kind'', ''metadata'', ''status'']"

definition type_error :: "pyrt \<Rightarrow> yaml \<Rightarrow> yaml \<Rightarrow> string \<Rightarrow> string" where
  "type_error rt value schema_type path =
     at_path path (''expected type '' @ squote (py_str rt schema_type) @ '', got ''
                     @ squote (type_name value))"

function validate_object :: "pyrt \<Rightarrow> yaml \<Rightarrow> yaml \<Rightarrow> string \<Rightarrow> exn + string list" where
  "validate_object rt value schema path =
     (case schema of
        VMap sm \<Rightarrow>
          (let schema_type = (case map_of sm ''type'' of None \<Rightarrow> VNull | Some t \<Rightarrow> t) in
           bindE (if truthy schema_type then check_type value schema_type else Inr True) (\<lambda>type_ok.
             if \<not> type_ok then Inr [type_error rt value schema_type path]
             else
               bindE (enum_errors rt value sm path) (\<lambda>e1.
               bindE (pattern_errors rt value sm path) (\<lambda>e2.
               bindE (minimum_errors rt value sm path) (\<lambda>e3.
               bindE (maximum_errors rt value sm path) (\<lambda>e4.
               bindE
                 (case value of
                    VMap vm \<Rightarrow>
                      if schema_type = VStr ''object'' then
                        (let properties = (case map_of sm ''properties'' of None \<Rightarrow> VMap [] | Some p \<Rightarrow> p);
                             required = (case map_of sm ''required'' of None \<Rightarrow> VList [] | Some r \<Rightarrow> r);
                             additional = (case map_of sm ''additionalProperties'' of None \<Rightarrow> VNull | Some a \<Rightarrow> a)
                         in
                         bindE (required_errors rt vm required path) (\<lambda>e5.
                         bindE (dict_items properties) (\<lambda>props.
                         bindE (collect (\<lambda>(prop_name, prop_schema).
                                  case map_of vm prop_name of
                                    None \<Rightarrow> Inr []
                                  | Some v \<Rightarrow> validate_object rt v prop_schema (child_path path prop_name))
                                props) (\<lambda>e6.
                         bindE
                           (if additional = VBool False then
                              Inr (concat (map (\<lambda>key.
                                     if key \<notin> set (map fst props) \<and> key \<notin> set envelope_keys
                                     then [at_path path (''unknown field '' @ squote key)] else [])
                                   (map fst vm)))
                            else if is_dict additional then
                              collect (\<lambda>key.
                                  if key \<notin> set (map fst props) then
                                    (case map_of vm key of
                                       None \<Rightarrow> Inr []
                                     | Some v \<Rightarrow> validate_object rt v additional (child_path path key))
                                  else Inr [])
                                (map fst vm)
                            else Inr []) (\<lambda>e7.
                         Inr (e5 @ e6 @ e7))))))
                      else Inr []
                  | _ \<Rightarrow> Inr []) (\<lambda>e_obj.
               bindE
                 (case value of
                    VList xs \<Rightarrow>
                      if schema_type = VStr ''array'' then
                        (let items_schema = (case map_of sm ''items'' of None \<Rightarrow> VMap [] | Some i \<Rightarrow> i) in
                         collect (\<lambda>(i, item).
                             validate_object rt item items_schema (path @ ''['' @ str_of_nat i @ '']''))
                           (zip [0..<length xs] xs))
                      else Inr []
                  | _ \<Rightarrow> Inr []) (\<lambda>e_arr.
               Inr (e1 @ e2 @ e3 @ e4 @ e_obj @ e_arr)))))))))
      | _ \<Rightarrow> Inr [])"
  by pat_completeness auto
termination
  apply (relation "measure (\<lambda>(rt, value, schema, path). size value)")
     apply simp
    apply (auto dest: size_map_of)
  apply (auto dest!: set_zip_rightD dest: size_elem)
  done

declare validate_object.simps [simp del]










text \<open>
  \<open>validate_crs_against_schema\<close>: each CR is validated from the empty path and its
  errors are prefixed with \<open>namespace/name\<close>, or with the name alone when the
  namespace is empty or missing.
\<close>

definition format_prefix :: "pyrt \<Rightarrow> yaml \<Rightarrow> yaml \<Rightarrow> string" where
  "format_prefix rt namespace name =
     (if truthy namespace then py_str rt namespace @ ''/'' @ py_str rt name else py_str rt name)"

definition cr_prefix :: "pyrt \<Rightarrow> yaml \<Rightarrow> exn + string" where
  "cr_prefix rt cr =
     bindE (dict_get cr ''metadata'' (VMap [])) (\<lambda>md.
     bindE (dict_get md ''name'' (VStr ''<unknown>'')) (\<lambda>name.
     bindE (dict_get cr ''metadata'' (VMap [])) (\<lambda>md'.
     bindE (dict_get md' ''namespace'' (VStr [])) (\<lambda>namespace.
       Inr (format_prefix rt namespace name)))))"

definition validate_crs_against_schema :: "pyrt \<Rightarrow> yaml list \<Rightarrow> yaml \<Rightarrow> exn + string list" where
  "validate_crs_against_schema rt crs schema =
     collect (\<lambda>cr.
         bindE (cr_prefix rt cr) (\<lambda>prefix.
         bindE (validate_object rt cr schema []) (\<lambda>cr_errors.
           Inr (map (\<lambda>err. prefix @ '': '' @ err) cr_errors))))
       crs"

text \<open>\<open>find_schema_for_version\<close>: the schema of the first version with the given name.\<close>

fun find_schema_in :: "yaml list \<Rightarrow> yaml \<Rightarrow> exn + yaml" where
  "find_schema_in [] version = Inr VNull"
| "find_schema_in (v # vs) version =
     bindE (dict_get v ''name'' VNull) (\<lambda>n.
       if py_eq n version then
         bindE (dict_get v ''schema'' (VMap [])) (\<lambda>sch. dict_get sch ''openAPIV3Schema'' VNull)
       else find_schema_in vs version)"

definition find_schema_for_version :: "yaml \<Rightarrow> yaml \<Rightarrow> exn + yaml" where
  "find_schema_for_version crd_body version =
     bindE (dict_get crd_body ''spec'' (VMap [])) (\<lambda>spec.
     bindE (dict_get spec ''versions'' (VList [])) (\<lambda>versions.
     bindE (py_iter versions) (\<lambda>vs. find_schema_in vs version)))"






definition plain_runtime :: pyrt where
  "plain_runtime =
     \<lparr>rt_str = (\<lambda>v. ''<value>''), rt_repr = (\<lambda>v. ''<value>''), rt_re_compile = (\<lambda>p. ReError)\<rparr>"

text \<open>A report with one dangerous and one harmless CRD, used to exercise the policy.\<close>

definition danger_annotation :: RiskAnnotation where
  "danger_annotation =
     \<lparr>ra_level = DANGER, ra_rule = ''crd_version_removed'',
      ra_message = ''CRD version removed'', ra_path = ''spec.versions[0]''\<rparr>"

definition example_report :: CrdReport where
  "example_report =
     \<lparr>crds =
        [\<lparr>cd_name = ''widgets.example.com'', cd_status = ''changed'', cd_changes = [],
          cd_risk_annotations = [danger_annotation], cd_stored_version_warnings = [],
          cd_schema_validation_errors = [], cd_ownership_conflict = None\<rparr>,
         \<lparr>cd_name = ''gadgets.example.com'', cd_status = ''added'', cd_changes = [],
          cd_risk_annotations = [], cd_stored_version_warnings = [],
          cd_schema_validation_errors = [], cd_ownership_conflict = None\<rparr>],
      new_crds = [], policy_result = None, warnings = []\<rparr>"

text \<open>Two changes to classify: a removed version and a change no specific rule covers.\<close>

definition removed_version_change :: FieldChange where
  "removed_version_change =
     \<lparr>fc_path = ''spec.versions[12]'', fc_old_value = VNull, fc_new_value = VNull,
      fc_change_type = ''item_removed''\<rparr>"

definition group_change :: FieldChange where
  "group_change =
     \<lparr>fc_path = ''spec.group'', fc_old_value = VStr ''a.example.com'',
      fc_new_value = VStr ''b.example.com'', fc_change_type = ''value_changed''\<rparr>"

section \<open>Stored versions and ownership (crd/stored_versions.py, crd/ownership.py)\<close>

text \<open>\<open>Resource\<close> of parser/manifest.py.\<close>

record Resource =
  res_api_version :: string
  res_kind :: string
  res_namespace :: string
  res_name :: string
  res_body :: yaml
  res_raw :: string

text \<open>crd/stored_versions.py.\<close>

definition stored_warning :: "pyrt \<Rightarrow> yaml \<Rightarrow> string" where
  "stored_warning rt sv =
     ''Stored version '' @ squote (py_str rt sv) @ '' is still in status.storedVersions ''
     @ ''but is being removed from spec.versions. ''
     @ ''Existing objects stored as '' @ squote (py_str rt sv) @ '' may become inaccessible. ''
     @ ''Migrate objects before removing the version.''"

text \<open>A loop that builds a list from what each round returns; a raise ends it.\<close>

fun mapE :: "('a \<Rightarrow> 'e + 'b) \<Rightarrow> 'a list \<Rightarrow> 'e + 'b list" where
  "mapE f [] = Inr []"
| "mapE f (x # xs) = bindE (f x) (\<lambda>y. bindE (mapE f xs) (\<lambda>ys. Inr (y # ys)))"

text \<open>Adding to a set and testing membership in it hash the element.\<close>

definition hashed :: "yaml \<Rightarrow> exn + yaml" where
  "hashed x = (if hashable x then Inr x else Inl (unhashable x))"

definition in_set :: "yaml \<Rightarrow> yaml list \<Rightarrow> exn + bool" where
  "in_set x s = bindE (hashed x) (\<lambda>x'. Inr (list_ex (py_eq x') s))"

definition check_stored_version_safety :: "pyrt \<Rightarrow> Resource \<Rightarrow> Resource \<Rightarrow> exn + string list" where
  "check_stored_version_safety rt old_crd new_crd =
     bindE (dict_get (res_body old_crd) ''status'' (VMap [])) (\<lambda>old_status.
     bindE (dict_get old_status ''storedVersions'' (VList [])) (\<lambda>stored_versions.
     if \<not> truthy stored_versions then Inr []
     else
       bindE (dict_get (res_body new_crd) ''spec'' (VMap [])) (\<lambda>new_spec.
       bindE (dict_get new_spec ''versions'' (VList [])) (\<lambda>versions.
       bindE (py_iter versions) (\<lambda>vs.
       bindE (mapE (\<lambda>v. bindE (dict_get v ''name'' (VStr [])) hashed) vs) (\<lambda>new_version_names.
       bindE (py_iter stored_versions) (\<lambda>svs.
       collect (\<lambda>sv. bindE (in_set sv new_version_names) (\<lambda>present.
                  Inr (if present then [] else [stored_warning rt sv])))
         svs)))))))"

text \<open>The name of a version entry, as the set comprehension reads it (\<open>v.get("name", "")\<close>).\<close>

definition version_name :: "yaml \<Rightarrow> yaml" where
  "version_name v = (case v of VMap m \<Rightarrow> (case map_of m ''name'' of None \<Rightarrow> VStr [] | Some n \<Rightarrow> n) | _ \<Rightarrow> VNull)"

definition installed_widgets :: Resource where
  "installed_widgets =
     \<lparr>res_api_version = ''apiextensions.k8s.io/v1'', res_kind = ''CustomResourceDefinition'',
      res_namespace = [], res_name = ''widgets.example.com'',
      res_body =
        VMap [(''metadata'', VMap [(''name'', VStr ''widgets.example.com'')]),
              (''spec'', VMap [(''group'', VStr ''example.com''),
                               (''versions'', VList [VMap [(''name'', VStr ''v1'')],
                                                     VMap [(''name'', VStr ''v2'')]])]),
              (''status'', VMap [(''storedVersions'', VList [VStr ''v1'', VStr ''v2''])])],
      res_raw = []\<rparr>"

definition proposed_widgets :: Resource where
  "proposed_widgets =
     \<lparr>res_api_version = ''apiextensions.k8s.io/v1'', res_kind = ''CustomResourceDefinition'',
      res_namespace = [], res_name = ''widgets.example.com'',
      res_body =
        VMap [(''metadata'', VMap [(''name'', VStr ''widgets.example.com'')]),
              (''spec'', VMap [(''group'', VStr ''example.com''),
                               (''versions'', VList [VMap [(''name'', VStr ''v2'')]])])],
      res_raw = []\<rparr>"

text \<open>
  crd/ownership.py. \<open>OwnershipInfo\<close> is the result of \<open>detect_ownership\<close> of
  analysis/ownership.py, which is taken as a parameter.
\<close>

record OwnershipInfo =
  ow_manager :: string
  ow_release :: "string option"
  ow_app :: "string option"

text \<open>Truth value of an optional string: \<open>None\<close> and the empty string are false.\<close>

fun str_truthy :: "string option \<Rightarrow> bool" where
  "str_truthy None = False"
| "str_truthy (Some s) = (s \<noteq> [])"

fun str_of :: "string option \<Rightarrow> string" where
  "str_of None = ''None''"
| "str_of (Some s) = s"

definition check_crd_ownership ::
  "(Resource \<Rightarrow> OwnershipInfo) \<Rightarrow> Resource \<Rightarrow> string option \<Rightarrow> string option" where
  "check_crd_ownership detect_ownership crd expected_release =
     (let ownership = detect_ownership crd in
      if ow_manager ownership = ''unknown'' then None
      else if ow_manager ownership \<noteq> ''helm'' then
        Some (''CRD '' @ squote (res_name crd) @ '' is managed by '' @ ow_manager ownership
              @ (if str_truthy (ow_app ownership) then '' (app: '' @ str_of (ow_app ownership) @ '')''
                 else [])
              @ '', not Helm'')
      else if str_truthy expected_release \<and> str_truthy (ow_release ownership)
              \<and> ow_release ownership \<noteq> expected_release then
        Some (''CRD '' @ squote (res_name crd) @ '' is owned by Helm release ''
              @ squote (str_of (ow_release ownership)) @ '', not the current release ''
              @ squote (str_of expected_release))
      else None)"

definition managed_by :: "string \<Rightarrow> Resource \<Rightarrow> OwnershipInfo" where
  "managed_by m crd = \<lparr>ow_manager = m, ow_release = None, ow_app = Some ''widgets''\<rparr>"

definition helm_without_release :: "Resource \<Rightarrow> OwnershipInfo" where
  "helm_without_release crd = \<lparr>ow_manager = ''helm'', ow_release = None, ow_app = None\<rparr>"

definition helm_release :: "string \<Rightarrow> Resource \<Rightarrow> OwnershipInfo" where
  "helm_release r crd = \<lparr>ow_manager = ''helm'', ow_release = Some r, ow_app = None\<rparr>"

section \<open>The world outside the modelled code\<close>

text \<open>
  The command-line options of \<open>diff\<close> (cli.py) and the keyword arguments
  \<open>**kube_opts\<close> that are passed down to every cluster call.
\<close>

record kube_opts =
  ko_kubeconfig :: "string option"
  ko_kube_context :: "string option"

record diff_args =
  da_release :: string
  da_chart :: string
  da_namespace :: "string option"
  da_values :: "string list"
  da_set_values :: "string list"
  da_version :: "string option"
  da_server_side :: bool
  da_show_all :: bool
  da_output_format :: string
  da_context :: int
  da_ignore_path :: "string list"
  da_kube :: kube_opts
  da_no_color :: bool
  da_risk_only :: bool
  da_check_crds :: bool
  da_crd_policy :: string

text \<open>\<open>ResourcePair\<close> of parser/manifest.py.\<close>

record ResourcePair =
  rp_old :: "Resource option"
  rp_new :: "Resource option"
  rp_status :: string

text \<open>
  Everything the modelled code calls that is not under src/ or is outside the program:
  the file system, the subprocess calls, the YAML library, and the functions of
  parser/, diff/, analysis/ and output/. The subprocess calls fail with \<open>RunError\<close>;
  the other functions raise exceptions of \<open>exn\<close> or are total.
  \<open>w_extract_changes old new\<close> stands for
  \<open>_extract_changes(DeepDiff(old, new, verbose_level=2))\<close>, and \<open>w_present\<close> for
  steps 5 to 8 of \<open>diff\<close> (diff_all, assess_risk, detect_ownership, rendering), whose
  result is printed.
\<close>

record world =
  w_rt :: pyrt
  w_is_dir :: "string \<Rightarrow> bool"
  w_glob :: "string \<Rightarrow> string \<Rightarrow> string list"
  w_read_text :: "string \<Rightarrow> exn + string"
  w_parse_multi_doc :: "string \<Rightarrow> string option \<Rightarrow> exn + Resource list"
  w_yaml_safe_load :: "string \<Rightarrow> exn + yaml"
  w_yaml_dump :: "yaml \<Rightarrow> string"
  w_kube_flags :: "kube_opts \<Rightarrow> string list"
  w_run :: "string list \<Rightarrow> raised + string"
  w_detect_ownership :: "Resource \<Rightarrow> OwnershipInfo"
  w_strip_noise :: "yaml \<Rightarrow> string list \<Rightarrow> yaml"
  w_normalize_body :: "yaml \<Rightarrow> yaml"
  w_is_semantically_equal :: "yaml \<Rightarrow> yaml \<Rightarrow> bool"
  w_extract_changes :: "yaml \<Rightarrow> yaml \<Rightarrow> FieldChange list"
  w_get_manifest :: "string \<Rightarrow> string \<Rightarrow> kube_opts \<Rightarrow> raised + string"
  w_dry_run_upgrade ::
    "string \<Rightarrow> string \<Rightarrow> string \<Rightarrow> string list \<Rightarrow> string list \<Rightarrow> string option \<Rightarrow> kube_opts
       \<Rightarrow> raised + string"
  w_server_side_dry_run :: "string \<Rightarrow> string \<Rightarrow> kube_opts \<Rightarrow> raised + string"
  w_pair_resources :: "Resource list \<Rightarrow> Resource list \<Rightarrow> exn + ResourcePair list"
  w_present ::
    "diff_args \<Rightarrow> ResourcePair list \<Rightarrow> Resource list \<Rightarrow> Resource list \<Rightarrow> CrdReport option
       \<Rightarrow> exn + string"

section \<open>Extraction (crd/extraction.py)\<close>

definition is_crd :: "Resource \<Rightarrow> bool" where
  "is_crd r = (res_kind r = ''CustomResourceDefinition'')"

definition extract_crds_from_resources :: "Resource list \<Rightarrow> Resource list" where
  "extract_crds_from_resources resources = filter is_crd resources"

text \<open>\<open>except (OSError, yaml.YAMLError): continue\<close>.\<close>

fun skipped :: "exn \<Rightarrow> bool" where
  "skipped (OSError m) = True"
| "skipped (YAMLError m) = True"
| "skipped e = False"

text \<open>
  One round of the loop over the files: the \<open>try\<close> block reads and parses the file
  and keeps its CRDs; the handler drops the file and goes on. Nothing else is recorded.
\<close>

definition read_crd_file :: "world \<Rightarrow> string \<Rightarrow> exn + Resource list" where
  "read_crd_file w yaml_file =
     (case bindE (w_read_text w yaml_file) (\<lambda>text. w_parse_multi_doc w text None) of
        Inl e \<Rightarrow> if skipped e then Inr [] else Inl e
      | Inr parsed \<Rightarrow> Inr (filter is_crd parsed))"

definition extract_crds_from_chart_dir :: "world \<Rightarrow> string \<Rightarrow> exn + Resource list" where
  "extract_crds_from_chart_dir w chart_path =
     (let crds_dir = chart_path @ ''/crds'' in
      if \<not> w_is_dir w crds_dir then Inr []
      else
        bindE (collect (read_crd_file w) (sort (w_glob w crds_dir ''*.yaml''))) (\<lambda>from_yaml.
        bindE (collect (read_crd_file w) (sort (w_glob w crds_dir ''*.yml''))) (\<lambda>from_yml.
        Inr (from_yaml @ from_yml))))"

section \<open>Discovery (crd/discovery.py)\<close>

text \<open>
  A field of \<open>Resource\<close> is a string. The cluster returns \<open>apiVersion\<close> and the
  metadata fields as strings; for any other value the model raises here, where Python
  would store the value in the string field.
\<close>

fun str_field :: "yaml \<Rightarrow> exn + string" where
  "str_field (VStr s) = Inr s"
| "str_field v = Inl (TypeError (''expected str, got '' @ type_name v))"

definition crd_of_item :: "world \<Rightarrow> yaml \<Rightarrow> exn + Resource" where
  "crd_of_item w item =
     bindE (dict_get item ''metadata'' (VMap [])) (\<lambda>metadata.
     bindE (dict_get item ''apiVersion'' (VStr ''apiextensions.k8s.io/v1'')) (\<lambda>api_version.
     bindE (dict_get metadata ''namespace'' (VStr [])) (\<lambda>namespace.
     bindE (dict_get metadata ''name'' (VStr [])) (\<lambda>name.
     bindE (str_field api_version) (\<lambda>av.
     bindE (str_field namespace) (\<lambda>ns.
     bindE (str_field name) (\<lambda>nm.
       Inr \<lparr>res_api_version = av, res_kind = ''CustomResourceDefinition'', res_namespace = ns,
            res_name = nm, res_body = item, res_raw = w_yaml_dump w item\<rparr>)))))))"

definition discover_cluster_crds :: "world \<Rightarrow> kube_opts \<Rightarrow> exn + Resource list" where
  "discover_cluster_crds w ko =
     (case w_run w ([''kubectl'', ''get'', ''crds'', ''-o'', ''yaml''] @ w_kube_flags w ko) of
        Inl (RunError m) \<Rightarrow> Inr []
      | Inl (Err e) \<Rightarrow> Inl e
      | Inr output \<Rightarrow>
          (case w_yaml_safe_load w output of
             Inl (YAMLError m) \<Rightarrow> Inr []
           | Inl e \<Rightarrow> Inl e
           | Inr data \<Rightarrow>
               (case data of
                  VMap dm \<Rightarrow>
                    if map_of dm ''kind'' = Some (VStr ''CustomResourceDefinitionList'') then
                      bindE (py_iter (case map_of dm ''items'' of None \<Rightarrow> VList [] | Some i \<Rightarrow> i))
                        (\<lambda>items.
                           collect (\<lambda>item.
                               if is_dict item then bindE (crd_of_item w item) (\<lambda>r. Inr [r])
                               else Inr [])
                             items)
                    else
                      bindE (w_parse_multi_doc w output None) (\<lambda>rs. Inr (filter is_crd rs))
                | _ \<Rightarrow> Inr [])))"

definition fetch_custom_resources :: "world \<Rightarrow> yaml \<Rightarrow> yaml \<Rightarrow> kube_opts \<Rightarrow> exn + yaml" where
  "fetch_custom_resources w plural grp ko =
     (case w_run w ([''kubectl'', ''get'', py_str (w_rt w) plural @ ''.'' @ py_str (w_rt w) grp,
                     ''-A'', ''-o'', ''yaml''] @ w_kube_flags w ko) of
        Inl (RunError m) \<Rightarrow> Inr (VList [])
      | Inl (Err e) \<Rightarrow> Inl e
      | Inr output \<Rightarrow>
          (case w_yaml_safe_load w output of
             Inl (YAMLError m) \<Rightarrow> Inr (VList [])
           | Inl e \<Rightarrow> Inl e
           | Inr data \<Rightarrow>
               (case data of
                  VMap dm \<Rightarrow> Inr (case map_of dm ''items'' of None \<Rightarrow> VList [] | Some i \<Rightarrow> i)
                | _ \<Rightarrow> Inr (VList []))))"

section \<open>Pairing and diffing (crd/differ.py)\<close>

definition CRD_NOISE_PATHS :: "string list" where
  "CRD_NOISE_PATHS =
     [''status'',
      ''metadata.creationTimestamp'',
      ''metadata.resourceVersion'',
      ''metadata.uid'',
      ''metadata.generation'',
      ''metadata.managedFields'',
      ''metadata.annotations.meta'' @ [CHR 0x5C] @ ''.helm'' @ [CHR 0x5C] @ ''.sh/*'',
      ''metadata.annotations.kubectl'' @ [CHR 0x5C] @ ''.kubernetes'' @ [CHR 0x5C]
        @ ''.io/last-applied-configuration'',
      ''metadata.labels.helm'' @ [CHR 0x5C] @ ''.sh/chart'']"

text \<open>
  \<open>{r.name: r for r in rs}\<close>: a key keeps the position of its first insertion and
  the value of its last.
\<close>

fun dict_put :: "(string \<times> 'v) list \<Rightarrow> string \<Rightarrow> 'v \<Rightarrow> (string \<times> 'v) list" where
  "dict_put [] k v = [(k, v)]"
| "dict_put ((k', v') # m) k v = (if k' = k then (k, v) # m else (k', v') # dict_put m k v)"

definition name_map :: "Resource list \<Rightarrow> (string \<times> Resource) list" where
  "name_map rs = foldl (\<lambda>m r. dict_put m (res_name r) r) [] rs"

text \<open>\<open>list(dict.fromkeys(xs))\<close>: the elements in the order of their first occurrence.\<close>

definition first_seen :: "string list \<Rightarrow> string list" where
  "first_seen xs = rev (remdups (rev xs))"

definition pair_of ::
  "(string \<times> Resource) list \<Rightarrow> (string \<times> Resource) list \<Rightarrow> string \<Rightarrow> ResourcePair" where
  "pair_of old_map new_map name =
     (case map_of old_map name of
        None \<Rightarrow> \<lparr>rp_old = None, rp_new = map_of new_map name, rp_status = ''added''\<rparr>
      | Some old_res \<Rightarrow>
          (case map_of new_map name of
             None \<Rightarrow> \<lparr>rp_old = Some old_res, rp_new = None, rp_status = ''removed''\<rparr>
           | Some new_res \<Rightarrow>
               if py_eq (res_body old_res) (res_body new_res)
               then \<lparr>rp_old = Some old_res, rp_new = Some new_res, rp_status = ''unchanged''\<rparr>
               else \<lparr>rp_old = Some old_res, rp_new = Some new_res, rp_status = ''changed''\<rparr>))"

definition pair_crds :: "Resource list \<Rightarrow> Resource list \<Rightarrow> ResourcePair list" where
  "pair_crds installed proposed =
     (let old_map = name_map installed;
          new_map = name_map proposed;
          all_names = first_seen (map fst old_map @ map fst new_map)
      in map (pair_of old_map new_map) all_names)"

text \<open>The body of a CRD after \<open>strip_noise\<close> with the CRD noise paths and \<open>normalize_body\<close>.\<close>

definition cleaned_body :: "world \<Rightarrow> Resource \<Rightarrow> yaml" where
  "cleaned_body w r = w_normalize_body w (w_strip_noise w (res_body r) CRD_NOISE_PATHS)"

text \<open>One round of the loop of \<open>diff_crds\<close>: what it appends to \<open>results\<close>.\<close>

definition diff_pair :: "world \<Rightarrow> ResourcePair \<Rightarrow> exn + (ResourcePair \<times> FieldChange list) list" where
  "diff_pair w pair =
     (if rp_status pair = ''added'' \<or> rp_status pair = ''removed'' then Inr [(pair, [])]
      else if rp_status pair = ''unchanged'' then Inr []
      else
        (case (rp_old pair, rp_new pair) of
           (Some old, Some new) \<Rightarrow>
             (let old_body = cleaned_body w old;
                  new_body = cleaned_body w new
              in if w_is_semantically_equal w old_body new_body then Inr []
                 else
                   (let changes = w_extract_changes w old_body new_body
                    in Inr (if changes \<noteq> [] then [(pair, changes)] else [])))
         | _ \<Rightarrow> Inl (AssertionError [])))"

definition diff_crds :: "world \<Rightarrow> ResourcePair list \<Rightarrow> exn + (ResourcePair \<times> FieldChange list) list" where
  "diff_crds w pairs = collect (diff_pair w) pairs"

section \<open>New CRDs (crd/detect_new.py)\<close>

definition new_crd_info :: "Resource \<Rightarrow> exn + NewCrdInfo" where
  "new_crd_info r =
     bindE (dict_get (res_body r) ''spec'' (VMap [])) (\<lambda>spec.
     bindE (dict_get spec ''group'' (VStr [])) (\<lambda>grp.
     bindE (dict_get spec ''names'' (VMap [])) (\<lambda>names.
     bindE (dict_get names ''kind'' (VStr [])) (\<lambda>kind.
     bindE (dict_get spec ''versions'' (VList [])) (\<lambda>versions.
     bindE (py_iter versions) (\<lambda>vs.
     bindE (mapE (\<lambda>v. dict_get v ''name'' (VStr [])) vs) (\<lambda>version_names.
       Inr \<lparr>nc_name = res_name r, nc_group = grp, nc_kind = kind,
            nc_versions = version_names\<rparr>)))))))"

definition detect_new_crds :: "Resource list \<Rightarrow> Resource list \<Rightarrow> exn + NewCrdInfo list" where
  "detect_new_crds installed proposed =
     collect (\<lambda>r. if res_name r \<notin> set (map res_name installed)
                   then bindE (new_crd_info r) (\<lambda>info. Inr [info])
                   else Inr [])
       proposed"

section \<open>The pipeline (crd/pipeline.py)\<close>

text \<open>The loop that finds the storage version: the name of the first version with a true \<open>storage\<close>.\<close>

fun storage_version_of :: "yaml list \<Rightarrow> exn + yaml" where
  "storage_version_of [] = Inr VNull"
| "storage_version_of (v # vs) =
     bindE (dict_get v ''storage'' VNull) (\<lambda>storage.
       if truthy storage then dict_get v ''name'' VNull else storage_version_of vs)"

text \<open>\<open>_validate_live_crs\<close> changes \<open>detail\<close> in place; the model returns the new detail.\<close>

definition validate_live_crs :: "world \<Rightarrow> Resource \<Rightarrow> CrdChangeDetail \<Rightarrow> kube_opts \<Rightarrow> exn + CrdChangeDetail" where
  "validate_live_crs w new_crd detail ko =
     bindE (dict_get (res_body new_crd) ''spec'' (VMap [])) (\<lambda>spec.
     bindE (dict_get spec ''names'' (VMap [])) (\<lambda>names.
     bindE (dict_get names ''plural'' (VStr [])) (\<lambda>plural.
     bindE (dict_get spec ''group'' (VStr [])) (\<lambda>grp.
     if \<not> truthy plural \<or> \<not> truthy grp then Inr detail
     else
       bindE (fetch_custom_resources w plural grp ko) (\<lambda>crs.
       if \<not> truthy crs then Inr detail
       else
         bindE (dict_get spec ''versions'' (VList [])) (\<lambda>versions.
         bindE (py_iter versions) (\<lambda>vs.
         bindE (storage_version_of vs) (\<lambda>storage_version.
         if \<not> truthy storage_version then Inr detail
         else
           bindE (find_schema_for_version (res_body new_crd) storage_version) (\<lambda>schema.
           if \<not> truthy schema then Inr detail
           else
             bindE (py_iter crs) (\<lambda>cr_list.
             bindE (validate_crs_against_schema (w_rt w) cr_list schema) (\<lambda>errors.
             Inr (if errors \<noteq> [] then detail\<lparr>cd_schema_validation_errors := errors\<rparr>
                  else detail))))))))))))"

text \<open>\<open>(pair.new or pair.old).name\<close>.\<close>

definition pair_name :: "ResourcePair \<Rightarrow> exn + string" where
  "pair_name pair =
     (case rp_new pair of
        Some r \<Rightarrow> Inr (res_name r)
      | None \<Rightarrow>
          (case rp_old pair of
             Some r \<Rightarrow> Inr (res_name r)
           | None \<Rightarrow> Inl (no_attribute VNull ''name'')))"

text \<open>
  One round of the loop over \<open>diff_results\<close>: the detail as it is built before the
  checks that need the cluster (name, status, changes, classification, ownership), and
  the detail appended to \<open>report.crds\<close>.
\<close>

definition initial_detail ::
  "world \<Rightarrow> string option \<Rightarrow> ResourcePair \<Rightarrow> FieldChange list \<Rightarrow> string \<Rightarrow> CrdChangeDetail" where
  "initial_detail w release_name pair changes crd_name =
     \<lparr>cd_name = crd_name, cd_status = rp_status pair, cd_changes = changes,
      cd_risk_annotations =
        (if changes \<noteq> [] then classify_crd_changes (py_str (w_rt w)) changes else []),
      cd_stored_version_warnings = [], cd_schema_validation_errors = [],
      cd_ownership_conflict =
        (case rp_old pair of
           Some old_crd \<Rightarrow>
             (case check_crd_ownership (w_detect_ownership w) old_crd release_name of
                Some conflict \<Rightarrow> if conflict \<noteq> [] then Some conflict else None
              | None \<Rightarrow> None)
         | None \<Rightarrow> None)\<rparr>"

definition process_pair ::
  "world \<Rightarrow> string option \<Rightarrow> kube_opts \<Rightarrow> ResourcePair \<times> FieldChange list \<Rightarrow> exn + CrdChangeDetail" where
  "process_pair w release_name ko pc =
     (let pair = fst pc; changes = snd pc in
      bindE (pair_name pair) (\<lambda>crd_name.
      bindE (case rp_new pair of
               Some new \<Rightarrow>
                 if rp_status pair = ''changed''
                 then validate_live_crs w new (initial_detail w release_name pair changes crd_name) ko
                 else Inr (initial_detail w release_name pair changes crd_name)
             | None \<Rightarrow> Inr (initial_detail w release_name pair changes crd_name)) (\<lambda>detail.
      case (rp_old pair, rp_new pair) of
        (Some old, Some new) \<Rightarrow>
          if rp_status pair = ''changed'' then
            bindE (check_stored_version_safety (w_rt w) old new) (\<lambda>sv_warnings.
              Inr (detail\<lparr>cd_stored_version_warnings := sv_warnings\<rparr>))
          else Inr detail
      | _ \<Rightarrow> Inr detail)))"

definition no_installed_warning :: string where
  "no_installed_warning =
     ''Could not retrieve installed CRDs from cluster ''
     @ ''(permission denied or cluster unreachable). ''
     @ ''Comparing against empty set.''"

text \<open>Step 1: the CRDs of the rendered manifest, then those of the chart whose name is new.\<close>

definition proposed_crds_of :: "world \<Rightarrow> Resource list \<Rightarrow> string option \<Rightarrow> exn + Resource list" where
  "proposed_crds_of w upgrade_resources chart_path =
     (let proposed_crds = extract_crds_from_resources upgrade_resources in
      if str_truthy chart_path then
        bindE (extract_crds_from_chart_dir w (str_of chart_path)) (\<lambda>chart_crds.
          Inr (proposed_crds
               @ filter (\<lambda>c. res_name c \<notin> set (map res_name proposed_crds)) chart_crds))
      else Inr proposed_crds)"

text \<open>The installed CRDs that the pipeline pairs: those with the name of a proposed CRD.\<close>

definition installed_relevant_of :: "Resource list \<Rightarrow> Resource list \<Rightarrow> Resource list" where
  "installed_relevant_of proposed_crds installed_crds =
     filter (\<lambda>r. res_name r \<in> set (map res_name proposed_crds)) installed_crds"

definition run_crd_pipeline ::
  "world \<Rightarrow> Resource list \<Rightarrow> string option \<Rightarrow> CrdPolicyMode \<Rightarrow> string option \<Rightarrow> kube_opts
     \<Rightarrow> exn + CrdReport" where
  "run_crd_pipeline w upgrade_resources chart_path policy_mode release_name ko =
     bindE (proposed_crds_of w upgrade_resources chart_path) (\<lambda>proposed_crds.
     if proposed_crds = [] then
       Inr (empty_report\<lparr>policy_result := Some (evaluate_policy empty_report policy_mode)\<rparr>)
     else
       bindE (discover_cluster_crds w ko) (\<lambda>installed_crds.
       let report_warnings = (if installed_crds = [] then [no_installed_warning] else []);
           installed_relevant = installed_relevant_of proposed_crds installed_crds;
           pairs = pair_crds installed_relevant proposed_crds
       in
       bindE (diff_crds w pairs) (\<lambda>diff_results.
       bindE (mapE (process_pair w release_name ko) diff_results) (\<lambda>details.
       bindE (detect_new_crds installed_relevant proposed_crds) (\<lambda>new.
       let report = \<lparr>crds = details, new_crds = new, policy_result = None,
                      warnings = report_warnings\<rparr>
       in Inr (report\<lparr>policy_result := Some (evaluate_policy report policy_mode)\<rparr>))))))"

section \<open>The command (cli.py)\<close>

definition is_crd_pair :: "ResourcePair \<Rightarrow> bool" where
  "is_crd_pair pair =
     (case rp_new pair of
        Some r \<Rightarrow> is_crd r
      | None \<Rightarrow> (case rp_old pair of Some r \<Rightarrow> is_crd r | None \<Rightarrow> False))"

text \<open>\<open>CrdPolicyMode(crd_policy)\<close>.\<close>

definition mode_of :: "string \<Rightarrow> exn + CrdPolicyMode" where
  "mode_of s =
     (if s = ''ignore'' then Inr IGNORE
      else if s = ''warn'' then Inr WARN
      else if s = ''fail'' then Inr FAIL
      else Inl (ValueError (squote s @ '' is not a valid CrdPolicyMode'')))"

definition run_crd_analysis ::
  "world \<Rightarrow> Resource list \<Rightarrow> string \<Rightarrow> string \<Rightarrow> string \<Rightarrow> kube_opts \<Rightarrow> exn + CrdReport" where
  "run_crd_analysis w upgrade_resources chart_path crd_policy release_name ko =
     bindE (mode_of crd_policy) (\<lambda>policy_mode.
       run_crd_pipeline w upgrade_resources (Some chart_path) policy_mode (Some release_name) ko)"

text \<open>
  \<open>_apply_server_side\<close>: a \<open>RunError\<close> of the dry run of one resource is caught and
  the resource is kept as rendered.
\<close>

definition server_side_one :: "world \<Rightarrow> string \<Rightarrow> kube_opts \<Rightarrow> Resource \<Rightarrow> exn + Resource" where
  "server_side_one w namespace ko res =
     (case w_server_side_dry_run w (w_yaml_dump w (res_body res)) namespace ko of
        Inl (RunError m) \<Rightarrow> Inr res
      | Inl (Err e) \<Rightarrow> Inl e
      | Inr mutated_yaml \<Rightarrow>
          bindE (w_parse_multi_doc w mutated_yaml (Some namespace)) (\<lambda>mutated.
            Inr (case mutated of [] \<Rightarrow> res | m # ms \<Rightarrow> m)))"

definition apply_server_side :: "world \<Rightarrow> Resource list \<Rightarrow> string \<Rightarrow> kube_opts \<Rightarrow> exn + Resource list" where
  "apply_server_side w resources namespace ko = mapE (server_side_one w namespace ko) resources"

definition lift :: "exn + 'a \<Rightarrow> raised + 'a" where
  "lift r = (case r of Inl e \<Rightarrow> Inl (Err e) | Inr x \<Rightarrow> Inr x)"

text \<open>
  The body of the \<open>try\<close> block of \<open>diff\<close>, up to the test of the policy result; it
  returns the CRD report, if one was asked for.
\<close>

definition namespace_of :: "diff_args \<Rightarrow> string" where
  "namespace_of a = (if str_truthy (da_namespace a) then str_of (da_namespace a) else ''default'')"

definition diff_body :: "world \<Rightarrow> diff_args \<Rightarrow> raised + CrdReport option" where
  "diff_body w a =
     (let ns = namespace_of a;
          ko = da_kube a
      in
      bindE (w_get_manifest w (da_release a) ns ko) (\<lambda>live_yaml.
      bindE (lift (w_parse_multi_doc w live_yaml (Some ns))) (\<lambda>live_resources.
      bindE (w_dry_run_upgrade w (da_release a) (da_chart a) ns (da_values a) (da_set_values a)
               (da_version a) ko) (\<lambda>upgrade_yaml.
      bindE (lift (w_parse_multi_doc w upgrade_yaml (Some ns))) (\<lambda>rendered.
      bindE (if da_server_side a then lift (apply_server_side w rendered ns ko)
             else Inr rendered) (\<lambda>upgrade_resources.
      bindE (lift (w_pair_resources w live_resources upgrade_resources)) (\<lambda>pairs.
      bindE (if da_check_crds a then
               bindE (lift (run_crd_analysis w upgrade_resources (da_chart a) (da_crd_policy a)
                              (da_release a) ko)) (\<lambda>r. Inr (Some r))
             else Inr None) (\<lambda>crd_report.
      bindE (lift (w_present w a
                     (if da_check_crds a then filter (\<lambda>p. \<not> is_crd_pair p) pairs else pairs)
                     live_resources upgrade_resources crd_report)) (\<lambda>printed.
      Inr crd_report)))))))))"

definition blocked_by_policy :: "CrdReport option \<Rightarrow> bool" where
  "blocked_by_policy crd_report =
     (case crd_report of
        Some report \<Rightarrow> (case policy_result report of Some p \<Rightarrow> pr_blocked p | None \<Rightarrow> False)
      | None \<Rightarrow> False)"

text \<open>
  How the command ends: with an exit code (\<open>sys.exit(1)\<close>, or 0 when it returns), or
  with an exception other than \<open>RunError\<close> leaving it uncaught.
\<close>

datatype outcome = Exit int | Uncaught exn

definition diff :: "world \<Rightarrow> diff_args \<Rightarrow> outcome" where
  "diff w a =
     (case diff_body w a of
        Inl (RunError m) \<Rightarrow> Exit 1
      | Inl (Err e) \<Rightarrow> Uncaught e
      | Inr crd_report \<Rightarrow> if blocked_by_policy crd_report then Exit 1 else Exit 0)"

text \<open>
  The exit status of the process. The command is the body of a console script: an
  exception that it does not catch ends the interpreter with a traceback and the
  status 1.
\<close>

fun exit_status :: "outcome \<Rightarrow> int" where
  "exit_status (Exit c) = c"
| "exit_status (Uncaught e) = 1"

section \<open>A world to run the pipeline in\<close>

definition keyed :: "(string \<times> Resource) list \<Rightarrow> bool" where
  "keyed m = (\<forall>(k, r) \<in> set m. res_name r = k)"

text \<open>
  A small world to run the pipeline and the command in. The chart has two files under
  crds/, one of them unreadable; the rendered manifest holds the gadgets CRD; the cluster
  has both CRDs installed, the gadgets CRD with the same body plus a \<open>status\<close>;
  every server-side dry run fails.
\<close>

definition proposed_gadgets :: Resource where
  "proposed_gadgets =
     \<lparr>res_api_version = ''apiextensions.k8s.io/v1'', res_kind = ''CustomResourceDefinition'',
      res_namespace = [], res_name = ''gadgets.example.com'',
      res_body =
        VMap [(''metadata'', VMap [(''name'', VStr ''gadgets.example.com'')]),
              (''spec'', VMap [(''group'', VStr ''example.com''),
                               (''versions'', VList [VMap [(''name'', VStr ''v1'')]])])],
      res_raw = []\<rparr>"

definition installed_gadgets_body :: yaml where
  "installed_gadgets_body =
     VMap [(''metadata'', VMap [(''name'', VStr ''gadgets.example.com'')]),
           (''spec'', VMap [(''group'', VStr ''example.com''),
                            (''versions'', VList [VMap [(''name'', VStr ''v1'')]])]),
           (''status'', VMap [(''storedVersions'', VList [VStr ''v1''])])]"

definition cluster_list :: yaml where
  "cluster_list =
     VMap [(''kind'', VStr ''CustomResourceDefinitionList''),
           (''items'', VList [res_body installed_widgets, installed_gadgets_body])]"

definition drop_keys :: "yaml \<Rightarrow> string list \<Rightarrow> yaml" where
  "drop_keys body paths =
     (case body of VMap m \<Rightarrow> VMap (filter (\<lambda>kv. fst kv \<notin> set paths) m) | _ \<Rightarrow> body)"

definition no_kube_opts :: kube_opts where
  "no_kube_opts = \<lparr>ko_kubeconfig = None, ko_kube_context = None\<rparr>"

definition demo_world :: world where
  "demo_world =
     \<lparr>w_rt = plain_runtime,
      w_is_dir = (\<lambda>d. d = ''chart/crds''),
      w_glob = (\<lambda>d p. if d = ''chart/crds'' \<and> p = ''*.yaml''
                        then [''chart/crds/widgets.yaml'', ''chart/crds/broken.yaml''] else []),
      w_read_text = (\<lambda>f. if f = ''chart/crds/widgets.yaml'' then Inr ''widgets''
                           else Inl (OSError ''unreadable'')),
      w_parse_multi_doc = (\<lambda>t ns. if t = ''widgets'' then Inr [proposed_widgets]
                                    else if t = ''rendered'' then Inr [proposed_gadgets]
                                    else Inr []),
      w_yaml_safe_load = (\<lambda>t. Inr cluster_list),
      w_yaml_dump = (\<lambda>v. []),
      w_kube_flags = (\<lambda>ko. []),
      w_run = (\<lambda>cmd. Inr ''crds''),
      w_detect_ownership = managed_by ''unknown'',
      w_strip_noise = drop_keys,
      w_normalize_body = (\<lambda>b. b),
      w_is_semantically_equal = (\<lambda>a b. a = b),
      w_extract_changes = (\<lambda>a b. [removed_version_change]),
      w_get_manifest = (\<lambda>r ns ko. Inr ''live''),
      w_dry_run_upgrade = (\<lambda>r c ns vs ss v ko. Inr ''rendered''),
      w_server_side_dry_run = (\<lambda>y ns ko. Inl (RunError ''forbidden'')),
      w_pair_resources = (\<lambda>live up. Inr []),
      w_present = (\<lambda>a ps live up rep. Inr [])\<rparr>"

definition demo_args :: "string \<Rightarrow> diff_args" where
  "demo_args policy =
     \<lparr>da_release = ''web'', da_chart = ''chart'', da_namespace = None, da_values = [],
      da_set_values = [], da_version = None, da_server_side = True, da_show_all = False,
      da_output_format = ''terminal'', da_context = 3, da_ignore_path = [],
      da_kube = no_kube_opts, da_no_color = False, da_risk_only = False, da_check_crds = True,
      da_crd_policy = policy\<rparr>"

definition unreachable_world :: world where
  "unreachable_world = demo_world\<lparr>w_get_manifest := (\<lambda>r ns ko. Inl (RunError ''timeout''))\<rparr>"

text \<open>
  The demo world with a rendered manifest that \<open>parse_multi_doc\<close> rejects: a
  document without \<open>metadata.name\<close>, which is a hard error of the parser.
\<close>

definition unparsable_world :: world where
  "unparsable_world =
     demo_world\<lparr>w_parse_multi_doc :=
       (\<lambda>t ns. if t = ''rendered'' then Inl (ValueError ''resource without metadata.name'')
                else Inr [])\<rparr>"

text \<open>What a file of crds/ contributes, and the exception that reading or parsing it raises.\<close>

definition file_error :: "world \<Rightarrow> string \<Rightarrow> exn option" where
  "file_error w f =
     (case w_read_text w f of
        Inl e \<Rightarrow> Some e
      | Inr text \<Rightarrow> (case w_parse_multi_doc w text None of Inl e \<Rightarrow> Some e | Inr parsed \<Rightarrow> None))"

definition file_crds :: "world \<Rightarrow> string \<Rightarrow> Resource list" where
  "file_crds w f =
     (case w_read_text w f of
        Inl e \<Rightarrow> []
      | Inr text \<Rightarrow>
          (case w_parse_multi_doc w text None of Inl e \<Rightarrow> [] | Inr parsed \<Rightarrow> filter is_crd parsed))"

section \<open>Properties of the policy\<close>

lemma danger_crds_nonempty:
  "danger_crds r \<noteq> [] \<longleftrightarrow> (\<exists>c \<in> set (crds r). max_risk c = DANGER)"
  by (auto simp: danger_crds_def filter_empty_conv)

text \<open>
  Claim C1. For every report and every mode, \<open>evaluate_policy\<close> does not block in the
  modes ignore and warn; in the mode fail it blocks with exit code 1 exactly when some
  CRD of the report has maximal risk DANGER, and otherwise does not block and has exit
  code 0.
\<close>

theorem evaluate_policy_blocks_iff_danger:
  "(mode = IGNORE \<or> mode = WARN \<longrightarrow> \<not> pr_blocked (evaluate_policy r mode)) \<and>
   (mode = FAIL \<longrightarrow>
      ((pr_blocked (evaluate_policy r mode) \<and> pr_exit_code (evaluate_policy r mode) = 1)
         \<longleftrightarrow> (\<exists>c \<in> set (crds r). max_risk c = DANGER)) \<and>
      (\<not> (\<exists>c \<in> set (crds r). max_risk c = DANGER) \<longrightarrow>
         \<not> pr_blocked (evaluate_policy r mode) \<and> pr_exit_code (evaluate_policy r mode) = 0))"
  using danger_crds_nonempty [of r] by (cases mode) (auto simp: evaluate_policy_def)

theorem evaluate_policy_blocks_iff_danger_witness:
  "(\<exists>c \<in> set (crds example_report). max_risk c = DANGER) \<and>
   pr_blocked (evaluate_policy example_report FAIL) \<and>
   pr_exit_code (evaluate_policy example_report FAIL) = 1 \<and>
   \<not> pr_blocked (evaluate_policy example_report WARN) \<and>
   \<not> pr_blocked (evaluate_policy empty_report FAIL) \<and>
   pr_exit_code (evaluate_policy empty_report FAIL) = 0"
proof -
  have d: "\<exists>c \<in> set (crds example_report). max_risk c = DANGER"
    by (simp add: example_report_def max_risk_def danger_annotation_def)
  have e: "\<not> (\<exists>c \<in> set (crds empty_report). max_risk c = DANGER)"
    by (simp add: empty_report_def)
  show ?thesis
    using d e evaluate_policy_blocks_iff_danger [of FAIL example_report]
      evaluate_policy_blocks_iff_danger [of WARN example_report]
      evaluate_policy_blocks_iff_danger [of FAIL empty_report]
    by simp
qed


section \<open>Properties of the classifier\<close>

lemma classify_loop_map:
  "classify_loop pystr acc cs = acc @ map (classify_single pystr) cs"
  by (induction cs arbitrary: acc) simp_all

lemma classify_single_path: "ra_path (classify_single pystr fc) = fc_path fc"
  by (simp add: classify_single_def Let_def annotation_def)

lemma classify_single_rule:
  "(ra_rule (classify_single pystr fc), ra_level (classify_single pystr fc)) \<in> set crd_rules"
  by (simp add: classify_single_def Let_def annotation_def crd_rules_def)

lemma classify_single_unmatched:
  assumes "\<not> specific_rule_applies fc"
  shows "classify_single pystr fc =
       annotation WARNING ''crd_unknown_change''
         (''Unknown CRD change at '' @ [CHR 0x27] @ fc_path fc @ [CHR 0x27]) (fc_path fc)"
proof -
  from assms [unfolded specific_rule_applies_def Let_def de_Morgan_disj]
  show ?thesis
    unfolding classify_single_def Let_def
    by (elim conjE) (simp only: if_False)
qed

lemma classify_single_matched:
  assumes "specific_rule_applies fc"
  shows "ra_rule (classify_single pystr fc) \<noteq> ''crd_unknown_change''"
proof
  assume u: "ra_rule (classify_single pystr fc) = ''crd_unknown_change''"
  have "\<not> specific_rule_applies fc"
    using u unfolding classify_single_def specific_rule_applies_def Let_def annotation_def
    by (simp split: if_splits)
  with assms show False by simp
qed

text \<open>
  Claim C3. \<open>classify_crd_changes\<close> returns one annotation per change, in the order of
  the changes: the annotation at each index is the classification of the change at that
  index, carries its path, and has one of the eighteen rule identifiers with the level
  the table gives it. A change that satisfies the guard of none of the seventeen specific
  rules gets the catch-all annotation, WARNING \<open>crd_unknown_change\<close> with the message
  \<open>Unknown CRD change at 'path'\<close>, and no other change gets that rule.
\<close>

theorem classify_crd_changes_one_per_change:
  "length (classify_crd_changes pystr cs) = length cs \<and>
   (\<forall>i < length cs.
      classify_crd_changes pystr cs ! i = classify_single pystr (cs ! i) \<and>
      ra_path (classify_crd_changes pystr cs ! i) = fc_path (cs ! i) \<and>
      (ra_rule (classify_crd_changes pystr cs ! i), ra_level (classify_crd_changes pystr cs ! i))
        \<in> set crd_rules \<and>
      (\<not> specific_rule_applies (cs ! i) \<longrightarrow>
         classify_crd_changes pystr cs ! i =
           annotation WARNING ''crd_unknown_change''
             (''Unknown CRD change at '' @ [CHR 0x27] @ fc_path (cs ! i) @ [CHR 0x27])
             (fc_path (cs ! i))) \<and>
      (specific_rule_applies (cs ! i) \<longrightarrow>
         ra_rule (classify_crd_changes pystr cs ! i) \<noteq> ''crd_unknown_change''))"
  by (simp add: classify_crd_changes_def classify_loop_map classify_single_path
      classify_single_rule classify_single_unmatched classify_single_matched)

theorem classify_crd_changes_one_per_change_witness:
  "length (classify_crd_changes (\<lambda>v. []) [removed_version_change, group_change]) = 2 \<and>
   \<not> specific_rule_applies group_change \<and>
   classify_crd_changes (\<lambda>v. []) [removed_version_change, group_change] ! 1
     = annotation WARNING ''crd_unknown_change''
         (''Unknown CRD change at '' @ [CHR 0x27] @ ''spec.group'' @ [CHR 0x27]) ''spec.group'' \<and>
   specific_rule_applies removed_version_change \<and>
   ra_rule (classify_crd_changes (\<lambda>v. []) [removed_version_change, group_change] ! 0)
     \<noteq> ''crd_unknown_change'' \<and>
   ra_path (classify_crd_changes (\<lambda>v. []) [removed_version_change, group_change] ! 0)
     = ''spec.versions[12]''"
proof -
  let ?cs = "[removed_version_change, group_change]"
  note T = classify_crd_changes_one_per_change [of "\<lambda>v. []" ?cs]
  have one: "(1::nat) < length ?cs" and zero: "(0::nat) < length ?cs" by simp_all
  have g: "\<not> specific_rule_applies (?cs ! 1)"
    by (simp add: specific_rule_applies_def group_change_def Let_def re_match_def re_search_def
      re_match_end_def re_search_end_def rx_metadata_def rx_printer_columns_def rx_version_def
      rx_nested_property_def rx_schema_required_def rx_schema_property_def rx_property_field_def
      rx_webhook_def lit_rems_def)
  have r: "specific_rule_applies (?cs ! 0)"
    by (simp add: specific_rule_applies_def removed_version_change_def Let_def re_match_def
      re_search_def re_match_end_def rx_metadata_def rx_printer_columns_def rx_version_def
      lit_rems_def is_digit_def at_end_def)
  from T one g have a1:
    "classify_crd_changes (\<lambda>v. []) ?cs ! 1 =
       annotation WARNING ''crd_unknown_change''
         (''Unknown CRD change at '' @ [CHR 0x27] @ fc_path (?cs ! 1) @ [CHR 0x27]) (fc_path (?cs ! 1))"
    by blast
  from T zero r have a0:
    "ra_rule (classify_crd_changes (\<lambda>v. []) ?cs ! 0) \<noteq> ''crd_unknown_change''" by blast
  from T zero have p0:
    "ra_path (classify_crd_changes (\<lambda>v. []) ?cs ! 0) = fc_path (?cs ! 0)" by blast
  from T have len: "length (classify_crd_changes (\<lambda>v. []) ?cs) = length ?cs" by blast
  from g r len a1 a0 p0 show ?thesis
    by (simp add: removed_version_change_def group_change_def)
qed

section \<open>What the patterns match\<close>

lemma in_lit_rems: "r \<in> set (lit_rems l s) \<longleftrightarrow> s = l @ r"
  by (auto simp: lit_rems_def) (metis append_eq_conv_conj)+

lemma in_plus_rems:
  "r \<in> set (plus_rems a s) \<Longrightarrow> \<exists>pre. pre \<noteq> [] \<and> s = pre @ r \<and> (\<forall>c \<in> set pre. atom_ok a c)"
proof (induction s)
  case Nil
  then show ?case by simp
next
  case (Cons c cs)
  show ?case
  proof (cases "atom_ok a c")
    case False
    with Cons.prems show ?thesis by simp
  next
    case True
    with Cons.prems have "r = cs \<or> r \<in> set (plus_rems a cs)" by simp
    then show ?thesis
    proof
      assume "r = cs"
      with True have "[c] \<noteq> [] \<and> c # cs = [c] @ r \<and> (\<forall>x \<in> set [c]. atom_ok a x)" by simp
      then show ?thesis by blast
    next
      assume "r \<in> set (plus_rems a cs)"
      from Cons.IH [OF this] obtain pre where
        p: "pre \<noteq> []" "cs = pre @ r" "\<forall>x \<in> set pre. atom_ok a x" by blast
      with True have "c # pre \<noteq> [] \<and> c # cs = (c # pre) @ r \<and> (\<forall>x \<in> set (c # pre). atom_ok a x)"
        by simp
      then show ?thesis by blast
    qed
  qed
qed

lemma in_tails: "t \<in> set (tails s) \<Longrightarrow> \<exists>pre. s = pre @ t"
proof (induction s)
  case Nil
  then show ?case by simp
next
  case (Cons c cs)
  then show ?case by (auto intro: exI [of _ "[]"])
qed

lemma re_match_iff: "re_match p s \<longleftrightarrow> (\<exists>r. r \<in> set (match_items p s))"
  by (cases "match_items p s") (auto simp: re_match_def)

text \<open>A path the version pattern matches is the literal, digits, the bracket, and at most a final newline.\<close>

lemma rx_version_shape:
  assumes "re_match_end rx_version p"
  shows "\<exists>ds. ds \<noteq> [] \<and> (\<forall>c \<in> set ds. is_digit c) \<and>
           (p = ''spec.versions['' @ ds @ '']'' \<or> p = ''spec.versions['' @ ds @ '']'' @ [newline])"
proof -
  from assms obtain r1 r2 r where
    a: "r1 \<in> set (lit_rems ''spec.versions['' p)" and
    b: "r2 \<in> set (plus_rems Digit r1)" and
    c: "r \<in> set (lit_rems '']'' r2)" and
    d: "at_end r"
    by (auto simp: re_match_end_def rx_version_def list_ex_iff)
  from in_plus_rems [OF b] obtain ds where
    ds: "ds \<noteq> []" "r1 = ds @ r2" "\<forall>c \<in> set ds. is_digit c" by auto
  from a have "p = ''spec.versions['' @ r1" by (simp only: in_lit_rems)
  moreover from c have "r2 = '']'' @ r" by (simp only: in_lit_rems)
  ultimately have "p = ''spec.versions['' @ ds @ '']'' @ r" using ds by simp
  with d ds show ?thesis unfolding at_end_def by auto
qed

lemma rx_metadata_first:
  "re_match rx_metadata p \<Longrightarrow> \<exists>r. p = CHR ''m'' # r"
  by (auto simp: re_match_iff rx_metadata_def in_lit_rems)

lemma rx_printer_columns_capital:
  assumes "re_search rx_printer_columns p"
  shows "CHR ''P'' \<in> set p"
proof -
  from assms obtain t where t: "t \<in> set (tails p)" "re_match rx_printer_columns t"
    by (auto simp: re_search_def list_ex_iff)
  from t(2) obtain r1 r2 r where
    a: "r1 \<in> set (lit_rems ''spec.versions['' t)" and
    b: "r2 \<in> set (plus_rems Digit r1)" and
    c: "r \<in> set (lit_rems ''].additionalPrinterColumns'' r2)"
    by (auto simp: re_match_iff rx_printer_columns_def)
  from c have "CHR ''P'' \<in> set r2" by (simp add: in_lit_rems)
  moreover from in_plus_rems [OF b] obtain ds where "r1 = ds @ r2" by auto
  moreover from a have "t = ''spec.versions['' @ r1" by (simp only: in_lit_rems)
  moreover from in_tails [OF t(1)] obtain pre where "p = pre @ t" by auto
  ultimately show ?thesis by simp
qed

text \<open>
  Claim C5. A change of type \<open>item_removed\<close> whose path matches
  \<open>^spec\.versions\[\d+\]$\<close> is classified DANGER \<open>crd_version_removed\<close>: none of the
  rules tried before the version-removed rule takes it, and the property-removed rule,
  which also asks for \<open>item_removed\<close>, comes later and is not reached.
\<close>

theorem removed_version_is_crd_version_removed:
  assumes m: "re_match_end rx_version (fc_path fc)" and t: "fc_change_type fc = ''item_removed''"
  shows "classify_single pystr fc =
           annotation DANGER ''crd_version_removed'' ''CRD version removed'' (fc_path fc) \<and>
         ra_rule (classify_single pystr fc) \<noteq> ''crd_property_removed''"
proof -
  from rx_version_shape [OF m] obtain ds where
    ds: "\<forall>c \<in> set ds. is_digit c" and
    p: "fc_path fc = ''spec.versions['' @ ds @ '']'' \<or>
        fc_path fc = ''spec.versions['' @ ds @ '']'' @ [newline]"
    by blast
  have "\<not> is_digit (CHR ''P'')" by (simp add: is_digit_def)
  with ds have "CHR ''P'' \<notin> set ds" by blast
  with p have "CHR ''P'' \<notin> set (fc_path fc)" by (auto simp: newline_def)
  then have n2: "\<not> re_search rx_printer_columns (fc_path fc)"
    using rx_printer_columns_capital by blast
  from p have n1: "\<not> re_match rx_metadata (fc_path fc)"
    using rx_metadata_first [of "fc_path fc"] by auto
  have "classify_single pystr fc =
          annotation DANGER ''crd_version_removed'' ''CRD version removed'' (fc_path fc)"
    using m t n1 n2 by (simp add: classify_single_def Let_def)
  then show ?thesis by (simp add: annotation_def)
qed

theorem removed_version_is_crd_version_removed_witness:
  "re_match_end rx_version (fc_path removed_version_change) \<and>
   fc_change_type removed_version_change = ''item_removed'' \<and>
   ra_rule (classify_single (\<lambda>v. []) removed_version_change) = ''crd_version_removed'' \<and>
   ra_level (classify_single (\<lambda>v. []) removed_version_change) = DANGER"
proof -
  have m: "re_match_end rx_version (fc_path removed_version_change)"
    by (simp add: removed_version_change_def re_match_end_def rx_version_def lit_rems_def
        is_digit_def at_end_def)
  have t: "fc_change_type removed_version_change = ''item_removed''"
    by (simp add: removed_version_change_def)
  show ?thesis
    using m t removed_version_is_crd_version_removed [OF m t, of "\<lambda>v. []"]
    by (simp add: annotation_def)
qed



section \<open>Properties of the schema validator\<close>


lemma bindE_Inr: "bindE m f = Inr y \<longleftrightarrow> (\<exists>x. m = Inr x \<and> f x = Inr y)"
  by (cases m) (simp_all add: bindE_def)

lemma collect_Inr_elem:
  "collect f xs = Inr es \<Longrightarrow> e \<in> set es \<Longrightarrow> \<exists>x \<in> set xs. \<exists>es'. f x = Inr es' \<and> e \<in> set es'"
proof (induction xs arbitrary: es)
  case Nil
  then show ?case by simp
next
  case (Cons x xs)
  from Cons.prems(1) obtain a b where
    a: "f x = Inr a" and b: "collect f xs = Inr b" and es: "es = a @ b"
    by (auto simp: bindE_Inr)
  from Cons.prems(2) es have "e \<in> set a \<or> e \<in> set b" by simp
  then show ?case
  proof
    assume "e \<in> set a" with a show ?thesis by auto
  next
    assume "e \<in> set b" from Cons.IH [OF b this] show ?thesis by auto
  qed
qed






















text \<open>An exception of the compilation other than \<open>re.error\<close> leaves the validator.\<close>

lemma pattern_exception_propagates:
  assumes "rt_re_compile rt q = ReRaises e"
  shows "validate_object rt (VStr s) (VMap [(''pattern'', VStr q)]) p = Inl e"
  using assms
  by (simp add: validate_object.simps bindE_def Let_def enum_errors_def pattern_errors_def)



















text \<open>
  Claim C7. In the type check a null value passes for every schema type, and a boolean
  fails for the type \<open>integer\<close> although \<open>isinstance(True, int)\<close> holds; in
  \<open>_validate_object\<close> the null yields no error and the boolean the type error.
\<close>

theorem null_passes_and_bool_is_not_integer:
  "check_type VNull schema_type = Inr True \<and>
   check_type (VBool b) (VStr ''integer'') = Inr False \<and>
   is_int (VBool b) \<and>
   validate_object rt VNull (VMap [(''type'', VStr t)]) path = Inr [] \<and>
   validate_object rt (VBool b) (VMap [(''type'', VStr ''integer'')]) path =
     Inr [''At '' @ squote path @ '': expected type '' @ squote ''integer'' @ '', got '' @ squote ''bool'']"
  by (simp add: check_type_def validate_object.simps bindE_def Let_def enum_errors_def
      pattern_errors_def minimum_errors_def maximum_errors_def type_error_def at_path_def)

theorem null_passes_and_bool_is_not_integer_witness:
  "check_type VNull (VStr ''string'') = Inr True \<and>
   check_type (VBool True) (VStr ''integer'') = Inr False \<and>
   validate_object plain_runtime VNull (VMap [(''type'', VStr ''array'')]) ''spec'' = Inr []"
  using null_passes_and_bool_is_not_integer [of "VStr ''string''" True plain_runtime "''array''" "''spec''"]
  by simp


section \<open>Properties of the stored-version and ownership checks\<close>

lemma bindE_Inr_simp [simp]: "bindE (Inr x) f = f x"
  by (simp add: bindE_def)

lemma mapE_total:
  "(\<And>x. x \<in> set xs \<Longrightarrow> f x = Inr (g x)) \<Longrightarrow> mapE f xs = Inr (map g xs)"
  by (induction xs) simp_all

lemma collect_concat:
  "(\<And>x. x \<in> set xs \<Longrightarrow> f x = Inr (g x)) \<Longrightarrow> collect f xs = Inr (concat (map g xs))"
  by (induction xs) simp_all

lemma py_eq_str: "py_eq (VStr s) x \<longleftrightarrow> x = VStr s"
  by (cases x) auto

lemma concat_filter_singleton:
  "concat (map (\<lambda>x. if P x then [] else [h x]) xs) = map h (filter (\<lambda>x. \<not> P x) xs)"
  by (induction xs) simp_all

lemma stored_versions_characterised:
  assumes st: "dict_get (res_body old_crd) ''status'' (VMap []) = Inr old_status"
    and sv: "dict_get old_status ''storedVersions'' (VList []) = Inr (VList svs)"
    and svs: "list_all is_str svs"
    and sp: "dict_get (res_body new_crd) ''spec'' (VMap []) = Inr new_spec"
    and ve: "dict_get new_spec ''versions'' (VList []) = Inr (VList vs)"
    and vs: "list_all (\<lambda>v. is_dict v \<and> hashable (version_name v)) vs"
  shows "check_stored_version_safety rt old_crd new_crd =
           Inr (map (stored_warning rt) (filter (\<lambda>sv. sv \<notin> set (map version_name vs)) svs))"
proof (cases "svs = []")
  case True
  with st sv show ?thesis by (simp add: check_stored_version_safety_def)
next
  case False
  have names: "mapE (\<lambda>v. bindE (dict_get v ''name'' (VStr [])) hashed) vs = Inr (map version_name vs)"
  proof (rule mapE_total)
    fix v assume "v \<in> set vs"
    with vs have d: "is_dict v" and h: "hashable (version_name v)" by (auto simp: list_all_iff)
    from d obtain m where m: "v = VMap m" by (cases v) auto
    with h show "bindE (dict_get v ''name'' (VStr [])) hashed = Inr (version_name v)"
      by (simp add: version_name_def hashed_def)
  qed
  have loop: "collect (\<lambda>sv. bindE (in_set sv (map version_name vs)) (\<lambda>present.
                  Inr (if present then [] else [stored_warning rt sv]))) svs
        = Inr (concat (map (\<lambda>sv. if sv \<in> set (map version_name vs) then [] else [stored_warning rt sv]) svs))"
  proof (rule collect_concat)
    fix x assume "x \<in> set svs"
    with svs have "is_str x" by (simp add: list_all_iff)
    then obtain s where s: "x = VStr s" by (cases x) auto
    have "list_ex (py_eq (VStr s)) (map version_name vs) \<longleftrightarrow> VStr s \<in> set (map version_name vs)"
      by (auto simp: list_ex_iff py_eq_str)
    then show "bindE (in_set x (map version_name vs)) (\<lambda>present.
                  Inr (if present then [] else [stored_warning rt x]))
             = Inr (if x \<in> set (map version_name vs) then [] else [stored_warning rt x])"
      unfolding s by (simp add: in_set_def hashed_def)
  qed
  from False st sv sp ve names loop show ?thesis
    by (simp add: check_stored_version_safety_def concat_filter_singleton)
qed

text \<open>
  Claim C4. For an installed CRD whose \<open>status.storedVersions\<close> is a list of strings
  and a proposed CRD whose \<open>spec.versions\<close> is a list of mappings,
  \<open>check_stored_version_safety\<close> returns one warning for each stored version that is
  not the name of a proposed version, in order; so the list is non-empty exactly when
  some stored version is missing. When \<open>storedVersions\<close> is absent or empty it returns
  the empty list, whatever the proposed CRD is.
\<close>

theorem stored_version_warnings_iff_missing:
  "(dict_get (res_body old_crd) ''status'' (VMap []) = Inr old_status \<and>
    dict_get old_status ''storedVersions'' (VList []) = Inr (VList svs) \<and>
    list_all is_str svs \<and>
    dict_get (res_body new_crd) ''spec'' (VMap []) = Inr new_spec \<and>
    dict_get new_spec ''versions'' (VList []) = Inr (VList vs) \<and>
    list_all (\<lambda>v. is_dict v \<and> hashable (version_name v)) vs \<longrightarrow>
      (\<exists>ws. check_stored_version_safety rt old_crd new_crd = Inr ws \<and>
         (ws \<noteq> [] \<longleftrightarrow> (\<exists>sv \<in> set svs. sv \<notin> set (map version_name vs))) \<and>
         ws = map (stored_warning rt) (filter (\<lambda>sv. sv \<notin> set (map version_name vs)) svs))) \<and>
   (dict_get (res_body old_crd) ''status'' (VMap []) = Inr old_status \<and>
    dict_get old_status ''storedVersions'' (VList []) = Inr (VList []) \<longrightarrow>
      check_stored_version_safety rt old_crd new_crd = Inr [])"
proof (intro conjI impI)
  assume a: "dict_get (res_body old_crd) ''status'' (VMap []) = Inr old_status \<and>
    dict_get old_status ''storedVersions'' (VList []) = Inr (VList svs) \<and>
    list_all is_str svs \<and>
    dict_get (res_body new_crd) ''spec'' (VMap []) = Inr new_spec \<and>
    dict_get new_spec ''versions'' (VList []) = Inr (VList vs) \<and>
    list_all (\<lambda>v. is_dict v \<and> hashable (version_name v)) vs"
  then have "check_stored_version_safety rt old_crd new_crd =
           Inr (map (stored_warning rt) (filter (\<lambda>sv. sv \<notin> set (map version_name vs)) svs))"
    using stored_versions_characterised [of old_crd old_status svs new_crd new_spec vs rt] by blast
  then show "\<exists>ws. check_stored_version_safety rt old_crd new_crd = Inr ws \<and>
         (ws \<noteq> [] \<longleftrightarrow> (\<exists>sv \<in> set svs. sv \<notin> set (map version_name vs))) \<and>
         ws = map (stored_warning rt) (filter (\<lambda>sv. sv \<notin> set (map version_name vs)) svs)"
    by (auto simp: filter_empty_conv)
next
  assume "dict_get (res_body old_crd) ''status'' (VMap []) = Inr old_status \<and>
    dict_get old_status ''storedVersions'' (VList []) = Inr (VList [])"
  then show "check_stored_version_safety rt old_crd new_crd = Inr []"
    by (simp add: check_stored_version_safety_def)
qed

theorem stored_version_warnings_iff_missing_witness:
  "check_stored_version_safety plain_runtime installed_widgets proposed_widgets =
     Inr [stored_warning plain_runtime (VStr ''v1'')] \<and>
   check_stored_version_safety plain_runtime proposed_widgets installed_widgets = Inr []"
proof -
  have a: "dict_get (res_body installed_widgets) ''status'' (VMap []) =
             Inr (VMap [(''storedVersions'', VList [VStr ''v1'', VStr ''v2''])]) \<and>
    dict_get (VMap [(''storedVersions'', VList [VStr ''v1'', VStr ''v2''])]) ''storedVersions'' (VList [])
      = Inr (VList [VStr ''v1'', VStr ''v2'']) \<and>
    list_all is_str [VStr ''v1'', VStr ''v2''] \<and>
    dict_get (res_body proposed_widgets) ''spec'' (VMap []) =
      Inr (VMap [(''group'', VStr ''example.com''), (''versions'', VList [VMap [(''name'', VStr ''v2'')]])]) \<and>
    dict_get (VMap [(''group'', VStr ''example.com''), (''versions'', VList [VMap [(''name'', VStr ''v2'')]])])
      ''versions'' (VList []) = Inr (VList [VMap [(''name'', VStr ''v2'')]]) \<and>
    list_all (\<lambda>v. is_dict v \<and> hashable (version_name v)) [VMap [(''name'', VStr ''v2'')]]"
    by (simp add: installed_widgets_def proposed_widgets_def version_name_def)
  have b: "dict_get (res_body proposed_widgets) ''status'' (VMap []) = Inr (VMap []) \<and>
    dict_get (VMap []) ''storedVersions'' (VList []) = Inr (VList [])"
    by (simp add: proposed_widgets_def)
  from a stored_version_warnings_iff_missing
    [of installed_widgets "VMap [(''storedVersions'', VList [VStr ''v1'', VStr ''v2''])]"
        "[VStr ''v1'', VStr ''v2'']" proposed_widgets
        "VMap [(''group'', VStr ''example.com''), (''versions'', VList [VMap [(''name'', VStr ''v2'')]])]"
        "[VMap [(''name'', VStr ''v2'')]]" plain_runtime]
  have one: "check_stored_version_safety plain_runtime installed_widgets proposed_widgets =
     Inr [stored_warning plain_runtime (VStr ''v1'')]"
    by (auto simp: version_name_def)
  from b stored_version_warnings_iff_missing
    [of proposed_widgets "VMap []" "[]" installed_widgets VNull "[]" plain_runtime]
  have two: "check_stored_version_safety plain_runtime proposed_widgets installed_widgets = Inr []"
    by blast
  from one two show ?thesis by simp
qed

text \<open>
  Claim C9 as stated fails for a Helm-managed CRD whose release differs from the current
  one when either of the two is missing or empty: the detected release \<open>None\<close> (the
  Helm label without the release annotation) or the empty string differs from the
  current release \<open>web\<close>, and the detected release \<open>api\<close> differs from an absent
  current release, yet no conflict is returned.
\<close>

theorem ownership_helm_release_counterexample:
  "ow_manager (helm_without_release installed_widgets) = ''helm'' \<and>
   ow_release (helm_without_release installed_widgets) \<noteq> Some ''web'' \<and>
   check_crd_ownership helm_without_release installed_widgets (Some ''web'') = None \<and>
   ow_release (helm_release [] installed_widgets) \<noteq> Some ''web'' \<and>
   check_crd_ownership (helm_release []) installed_widgets (Some ''web'') = None \<and>
   ow_release (helm_release ''api'' installed_widgets) \<noteq> None \<and>
   check_crd_ownership (helm_release ''api'') installed_widgets None = None"
  by (simp add: check_crd_ownership_def helm_without_release_def helm_release_def)

text \<open>
  Claim C9, amended. The ownership check returns no conflict when the manager is unknown;
  the message that the CRD is managed by that manager, not Helm, when the manager is
  neither unknown nor helm; and when the manager is helm, a conflict naming both releases
  exactly when a non-empty release was detected, a non-empty current release name is
  given, and the two differ, and no conflict otherwise.
\<close>

theorem ownership_conflicts:
  "(ow_manager (detect crd) = ''unknown'' \<longrightarrow> check_crd_ownership detect crd expected = None) \<and>
   (ow_manager (detect crd) \<noteq> ''unknown'' \<and> ow_manager (detect crd) \<noteq> ''helm'' \<longrightarrow>
      check_crd_ownership detect crd expected =
        Some (''CRD '' @ squote (res_name crd) @ '' is managed by '' @ ow_manager (detect crd)
              @ (if str_truthy (ow_app (detect crd)) then '' (app: '' @ str_of (ow_app (detect crd)) @ '')''
                 else [])
              @ '', not Helm'')) \<and>
   (ow_manager (detect crd) = ''helm'' \<longrightarrow>
      check_crd_ownership detect crd expected =
        (if (\<exists>r e. ow_release (detect crd) = Some r \<and> expected = Some e \<and> r \<noteq> [] \<and> e \<noteq> [] \<and> r \<noteq> e)
         then Some (''CRD '' @ squote (res_name crd) @ '' is owned by Helm release ''
                    @ squote (str_of (ow_release (detect crd))) @ '', not the current release ''
                    @ squote (str_of expected))
         else None))"
  by (cases "ow_release (detect crd)"; cases expected)
     (auto simp: check_crd_ownership_def Let_def)

theorem ownership_conflicts_witness:
  "check_crd_ownership (helm_release ''api'') installed_widgets (Some ''web'') =
     Some (''CRD '' @ squote ''widgets.example.com'' @ '' is owned by Helm release ''
           @ squote ''api'' @ '', not the current release '' @ squote ''web'') \<and>
   check_crd_ownership (helm_release ''web'') installed_widgets (Some ''web'') = None \<and>
   check_crd_ownership (managed_by ''unknown'') installed_widgets (Some ''web'') = None \<and>
   check_crd_ownership (managed_by ''argocd'') installed_widgets (Some ''web'') =
     Some (''CRD '' @ squote ''widgets.example.com'' @ '' is managed by argocd (app: widgets), not Helm'')"
  using ownership_conflicts [of "helm_release ''api''" installed_widgets "Some ''web''"]
    ownership_conflicts [of "helm_release ''web''" installed_widgets "Some ''web''"]
    ownership_conflicts [of "managed_by ''unknown''" installed_widgets "Some ''web''"]
    ownership_conflicts [of "managed_by ''argocd''" installed_widgets "Some ''web''"]
  by (simp add: helm_release_def managed_by_def installed_widgets_def)


section \<open>Properties of the pipeline and of the command\<close>

lemma mapE_Inr_elem:
  "mapE f xs = Inr ys \<Longrightarrow> y \<in> set ys \<Longrightarrow> \<exists>x \<in> set xs. f x = Inr y"
proof (induction xs arbitrary: ys)
  case Nil
  then show ?case by simp
next
  case (Cons x xs)
  from Cons.prems(1) obtain a b where
    a: "f x = Inr a" and b: "mapE f xs = Inr b" and ys: "ys = a # b"
    by (auto simp: bindE_Inr)
  from Cons.prems(2) ys have "y = a \<or> y \<in> set b" by simp
  then show ?case
  proof
    assume "y = a" with a show ?thesis by simp
  next
    assume "y \<in> set b" from Cons.IH [OF b this] show ?thesis by auto
  qed
qed

lemma validate_live_crs_keeps:
  "validate_live_crs w new_crd detail ko = Inr d \<Longrightarrow>
     cd_name d = cd_name detail \<and> cd_status d = cd_status detail \<and>
     cd_changes d = cd_changes detail \<and> cd_risk_annotations d = cd_risk_annotations detail"
  by (auto simp: validate_live_crs_def bindE_Inr split: if_splits)

lemma process_pair_fields:
  assumes "process_pair w release_name ko (pair, changes) = Inr d"
  shows "pair_name pair = Inr (cd_name d) \<and> cd_status d = rp_status pair \<and> cd_changes d = changes \<and>
         cd_risk_annotations d =
           (if changes \<noteq> [] then classify_crd_changes (py_str (w_rt w)) changes else [])"
proof -
  from assms obtain crd_name detail1 where
    n: "pair_name pair = Inr crd_name" and
    d1: "(case rp_new pair of
               Some new \<Rightarrow>
                 if rp_status pair = ''changed''
                 then validate_live_crs w new (initial_detail w release_name pair changes crd_name) ko
                 else Inr (initial_detail w release_name pair changes crd_name)
             | None \<Rightarrow> Inr (initial_detail w release_name pair changes crd_name)) = Inr detail1" and
    d2: "(case (rp_old pair, rp_new pair) of
        (Some old, Some new) \<Rightarrow>
          if rp_status pair = ''changed'' then
            bindE (check_stored_version_safety (w_rt w) old new) (\<lambda>sv_warnings.
              Inr (detail1\<lparr>cd_stored_version_warnings := sv_warnings\<rparr>))
          else Inr detail1
      | _ \<Rightarrow> Inr detail1) = Inr d"
    by (auto simp: process_pair_def Let_def bindE_Inr)
  let ?d0 = "initial_detail w release_name pair changes crd_name"
  from d1 have k1: "cd_name detail1 = cd_name ?d0 \<and> cd_status detail1 = cd_status ?d0 \<and>
     cd_changes detail1 = cd_changes ?d0 \<and> cd_risk_annotations detail1 = cd_risk_annotations ?d0"
    by (auto split: option.splits if_splits dest: validate_live_crs_keeps)
  from d2 have k2: "cd_name d = cd_name detail1 \<and> cd_status d = cd_status detail1 \<and>
     cd_changes d = cd_changes detail1 \<and> cd_risk_annotations d = cd_risk_annotations detail1"
    by (auto simp: bindE_Inr split: option.splits if_splits)
  from n k1 k2 show ?thesis by (simp add: initial_detail_def)
qed

lemma diff_pair_results:
  assumes "diff_pair w pair = Inr rs" and "(p, c) \<in> set rs"
  shows "p = pair \<and> rp_status p \<noteq> ''unchanged'' \<and>
         (if rp_status p = ''added'' \<or> rp_status p = ''removed'' then c = [] else c \<noteq> [])"
  using assms
  by (auto simp: diff_pair_def Let_def split: if_splits option.splits)

lemma diff_pair_semantically_equal:
  assumes "rp_old pair = Some old" "rp_new pair = Some new" "rp_status pair = ''changed''"
    and "w_is_semantically_equal w (cleaned_body w old) (cleaned_body w new)"
  shows "diff_pair w pair = Inr []"
  using assms by (simp add: diff_pair_def)

lemma keyed_dict_put: "keyed m \<Longrightarrow> keyed (dict_put m (res_name r) r)"
  by (induction m) (auto simp: keyed_def split: if_splits)

lemma keyed_foldl: "keyed m \<Longrightarrow> keyed (foldl (\<lambda>m r. dict_put m (res_name r) r) m rs)"
  by (induction rs arbitrary: m) (simp_all add: keyed_dict_put)

lemma keyed_name_map: "keyed (name_map rs)"
  unfolding name_map_def by (rule keyed_foldl) (simp add: keyed_def)

lemma name_map_lookup: "map_of (name_map rs) k = Some r \<Longrightarrow> res_name r = k"
  using keyed_name_map [of rs] by (auto simp: keyed_def dest: map_of_SomeD)

lemma set_first_seen: "set (first_seen xs) = set xs"
  by (simp add: first_seen_def)

lemma pair_of_name:
  assumes "k \<in> set (map fst (name_map installed) @ map fst (name_map proposed))"
  shows "pair_name (pair_of (name_map installed) (name_map proposed) k) = Inr k"
proof (cases "map_of (name_map proposed) k")
  case None
  then have "k \<notin> fst ` set (name_map proposed)" by (simp add: map_of_eq_None_iff)
  with assms have "k \<in> fst ` set (name_map installed)" by auto
  then obtain r where r: "map_of (name_map installed) k = Some r"
    by (cases "map_of (name_map installed) k") (auto simp: map_of_eq_None_iff)
  from name_map_lookup [OF r] r None show ?thesis
    by (simp add: pair_of_def pair_name_def)
next
  case (Some r)
  from name_map_lookup [OF Some] Some show ?thesis
    by (cases "map_of (name_map installed) k") (simp_all add: pair_of_def pair_name_def)
qed

lemma pair_crds_name:
  assumes "pair \<in> set (pair_crds installed proposed)"
  shows "\<exists>k. pair = pair_of (name_map installed) (name_map proposed) k \<and> pair_name pair = Inr k"
proof -
  from assms obtain k where
    k: "k \<in> set (map fst (name_map installed) @ map fst (name_map proposed))" and
    p: "pair = pair_of (name_map installed) (name_map proposed) k"
    by (auto simp: pair_crds_def Let_def set_first_seen)
  from pair_of_name [OF k] p show ?thesis by auto
qed

lemma pair_new_name:
  assumes "pair \<in> set (pair_crds installed proposed)" and "rp_new pair = Some new"
  shows "pair_name pair = Inr (res_name new)"
  using assms by (simp add: pair_name_def)

lemma pair_crds_status:
  assumes "pair \<in> set (pair_crds installed proposed)"
    and "rp_old pair = Some old" and "rp_new pair = Some new"
  shows "rp_status pair = (if py_eq (res_body old) (res_body new) then ''unchanged'' else ''changed'')"
  using assms
  by (auto simp: pair_crds_def Let_def pair_of_def split: option.splits if_splits)

lemma pipeline_details:
  assumes "run_crd_pipeline w ur cp mode rel ko = Inr report"
  shows "(proposed_crds_of w ur cp = Inr [] \<and> crds report = [] \<and> warnings report = []) \<or>
         (\<exists>proposed installed diff_results.
            proposed_crds_of w ur cp = Inr proposed \<and> proposed \<noteq> [] \<and>
            discover_cluster_crds w ko = Inr installed \<and>
            diff_crds w (pair_crds (installed_relevant_of proposed installed) proposed) = Inr diff_results \<and>
            mapE (process_pair w rel ko) diff_results = Inr (crds report) \<and>
            warnings report = (if installed = [] then [no_installed_warning] else []))"
proof -
  from assms obtain proposed where
    p: "proposed_crds_of w ur cp = Inr proposed" and
    rest: "(if proposed = [] then
       Inr (empty_report\<lparr>policy_result := Some (evaluate_policy empty_report mode)\<rparr>)
     else
       bindE (discover_cluster_crds w ko) (\<lambda>installed_crds.
       let report_warnings = (if installed_crds = [] then [no_installed_warning] else []);
           installed_relevant = installed_relevant_of proposed installed_crds;
           pairs = pair_crds installed_relevant proposed
       in
       bindE (diff_crds w pairs) (\<lambda>diff_results.
       bindE (mapE (process_pair w rel ko) diff_results) (\<lambda>details.
       bindE (detect_new_crds installed_relevant proposed) (\<lambda>new.
       let report = \<lparr>crds = details, new_crds = new, policy_result = None,
                      warnings = report_warnings\<rparr>
       in Inr (report\<lparr>policy_result := Some (evaluate_policy report mode)\<rparr>)))))) = Inr report"
    unfolding run_crd_pipeline_def bindE_Inr by blast
  show ?thesis
  proof (cases "proposed = []")
    case True
    with p rest show ?thesis by (auto simp: empty_report_def)
  next
    case False
    with rest obtain installed diff_results details new where
      i: "discover_cluster_crds w ko = Inr installed" and
      d: "diff_crds w (pair_crds (installed_relevant_of proposed installed) proposed) = Inr diff_results" and
      m: "mapE (process_pair w rel ko) diff_results = Inr details" and
      r: "report = \<lparr>crds = details, new_crds = new,
                     policy_result = Some (evaluate_policy
                        \<lparr>crds = details, new_crds = new, policy_result = None,
                         warnings = (if installed = [] then [no_installed_warning] else [])\<rparr> mode),
                     warnings = (if installed = [] then [no_installed_warning] else [])\<rparr>"
      by (auto simp: bindE_Inr Let_def)
    from r have "crds report = details"
      "warnings report = (if installed = [] then [no_installed_warning] else [])" by simp_all
    with p False i d m show ?thesis by blast
  qed
qed

lemma pipeline_detail_origin:
  assumes d: "mapE (process_pair w rel ko) diff_results = Inr details"
    and r: "diff_crds w pairs = Inr diff_results"
    and m: "d \<in> set details"
  shows "\<exists>pair changes rs. pair \<in> set pairs \<and> diff_pair w pair = Inr rs \<and> (pair, changes) \<in> set rs \<and>
           pair_name pair = Inr (cd_name d) \<and> cd_status d = rp_status pair \<and> cd_changes d = changes \<and>
           cd_risk_annotations d =
             (if changes \<noteq> [] then classify_crd_changes (py_str (w_rt w)) changes else [])"
proof -
  from mapE_Inr_elem [OF d m] obtain p c where
    pc: "(p, c) \<in> set diff_results" and pp: "process_pair w rel ko (p, c) = Inr d" by auto
  from collect_Inr_elem [OF r [unfolded diff_crds_def] pc] obtain pair rs where
    pr: "pair \<in> set pairs" and rs: "diff_pair w pair = Inr rs" and mem: "(p, c) \<in> set rs" by auto
  from diff_pair_results [OF rs mem] have "p = pair" by simp
  with pr rs mem process_pair_fields [OF pp] show ?thesis by blast
qed

lemma read_crd_file_cases:
  "read_crd_file w f =
     (case file_error w f of
        None \<Rightarrow> Inr (file_crds w f)
      | Some e \<Rightarrow> if skipped e then Inr [] else Inl e)"
  by (auto simp: read_crd_file_def file_error_def file_crds_def bindE_def split: sum.splits)

lemma file_crds_of_failed: "file_error w f \<noteq> None \<Longrightarrow> file_crds w f = []"
  by (auto simp: file_error_def file_crds_def split: sum.splits)

lemma read_crd_file_skips:
  assumes "\<forall>e. file_error w f = Some e \<longrightarrow> skipped e"
  shows "read_crd_file w f = Inr (file_crds w f)"
proof (cases "file_error w f")
  case None
  then show ?thesis by (simp add: read_crd_file_cases)
next
  case (Some e)
  with assms have "skipped e" by simp
  moreover from Some have "file_crds w f = []" by (simp add: file_crds_of_failed)
  ultimately show ?thesis using Some by (simp add: read_crd_file_cases)
qed

lemma extract_skips:
  assumes d: "w_is_dir w (chart_path @ ''/crds'')"
    and s: "\<forall>f \<in> set (w_glob w (chart_path @ ''/crds'') ''*.yaml''
                     @ w_glob w (chart_path @ ''/crds'') ''*.yml'').
              \<forall>e. file_error w f = Some e \<longrightarrow> skipped e"
  shows "extract_crds_from_chart_dir w chart_path =
           Inr (concat (map (file_crds w) (sort (w_glob w (chart_path @ ''/crds'') ''*.yaml'')))
                @ concat (map (file_crds w) (sort (w_glob w (chart_path @ ''/crds'') ''*.yml''))))"
proof -
  have a: "collect (read_crd_file w) (sort (w_glob w (chart_path @ ''/crds'') ''*.yaml''))
             = Inr (concat (map (file_crds w) (sort (w_glob w (chart_path @ ''/crds'') ''*.yaml''))))"
    by (rule collect_concat) (use s in \<open>auto intro: read_crd_file_skips\<close>)
  have b: "collect (read_crd_file w) (sort (w_glob w (chart_path @ ''/crds'') ''*.yml''))
             = Inr (concat (map (file_crds w) (sort (w_glob w (chart_path @ ''/crds'') ''*.yml''))))"
    by (rule collect_concat) (use s in \<open>auto intro: read_crd_file_skips\<close>)
  from d a b show ?thesis by (simp add: extract_crds_from_chart_dir_def Let_def)
qed

lemma pipeline_warnings:
  assumes "run_crd_pipeline w ur cp mode rel ko = Inr report"
  shows "warnings report = [] \<or>
         (warnings report = [no_installed_warning] \<and> discover_cluster_crds w ko = Inr [])"
  using pipeline_details [OF assms] by (auto split: if_splits)

lemma pipeline_policy:
  assumes "run_crd_pipeline w ur cp mode rel ko = Inr report"
  shows "\<exists>r0. crds r0 = crds report \<and> policy_result report = Some (evaluate_policy r0 mode)"
proof -
  from assms obtain proposed where
    rest: "(if proposed = [] then
       Inr (empty_report\<lparr>policy_result := Some (evaluate_policy empty_report mode)\<rparr>)
     else
       bindE (discover_cluster_crds w ko) (\<lambda>installed_crds.
       let report_warnings = (if installed_crds = [] then [no_installed_warning] else []);
           installed_relevant = installed_relevant_of proposed installed_crds;
           pairs = pair_crds installed_relevant proposed
       in
       bindE (diff_crds w pairs) (\<lambda>diff_results.
       bindE (mapE (process_pair w rel ko) diff_results) (\<lambda>details.
       bindE (detect_new_crds installed_relevant proposed) (\<lambda>new.
       let report = \<lparr>crds = details, new_crds = new, policy_result = None,
                      warnings = report_warnings\<rparr>
       in Inr (report\<lparr>policy_result := Some (evaluate_policy report mode)\<rparr>)))))) = Inr report"
    unfolding run_crd_pipeline_def bindE_Inr by blast
  show ?thesis
  proof (cases "proposed = []")
    case True
    with rest have "crds empty_report = crds report \<and>
        policy_result report = Some (evaluate_policy empty_report mode)"
      by (auto simp: empty_report_def)
    then show ?thesis by blast
  next
    case False
    with rest obtain installed details new where
      i: "discover_cluster_crds w ko = Inr installed" and
      r: "report = \<lparr>crds = details, new_crds = new,
                     policy_result = Some (evaluate_policy
                        \<lparr>crds = details, new_crds = new, policy_result = None,
                         warnings = (if installed = [] then [no_installed_warning] else [])\<rparr> mode),
                     warnings = (if installed = [] then [no_installed_warning] else [])\<rparr>"
      by (auto simp: bindE_Inr Let_def)
    let ?r0 = "\<lparr>crds = details, new_crds = new, policy_result = None,
                warnings = (if installed = [] then [no_installed_warning] else [])\<rparr>"
    from r have "crds ?r0 = crds report \<and> policy_result report = Some (evaluate_policy ?r0 mode)"
      by simp
    then show ?thesis by blast
  qed
qed

lemma not_blocked_without_danger:
  "\<forall>d \<in> set (crds r0). cd_risk_annotations d = [] \<Longrightarrow> \<not> pr_blocked (evaluate_policy r0 mode)"
  by (auto simp: evaluate_policy_def danger_crds_def max_risk_def filter_empty_conv)

lemma pair_crds_nothing_installed:
  "pair \<in> set (pair_crds [] proposed) \<Longrightarrow> rp_status pair = ''added''"
  by (auto simp: pair_crds_def Let_def pair_of_def name_map_def)

lemma discovery_failure_never_blocks:
  assumes run: "run_crd_pipeline w ur cp mode rel ko = Inr report"
    and none: "discover_cluster_crds w ko = Inr []"
  shows "\<exists>p. policy_result report = Some p \<and> \<not> pr_blocked p"
proof -
  from pipeline_policy [OF run] obtain r0 where
    c: "crds r0 = crds report" and p: "policy_result report = Some (evaluate_policy r0 mode)"
    by blast
  have "\<forall>d \<in> set (crds report). cd_risk_annotations d = []"
  proof
    fix d assume dm: "d \<in> set (crds report)"
    from pipeline_details [OF run] dm none obtain proposed diff_results where
      df: "diff_crds w (pair_crds (installed_relevant_of proposed []) proposed) = Inr diff_results" and
      mp: "mapE (process_pair w rel ko) diff_results = Inr (crds report)"
      by auto
    from pipeline_detail_origin [OF mp df dm] obtain pair changes rs where
      pin: "pair \<in> set (pair_crds (installed_relevant_of proposed []) proposed)" and
      rs: "diff_pair w pair = Inr rs" and mem: "(pair, changes) \<in> set rs" and
      ra: "cd_risk_annotations d =
             (if changes \<noteq> [] then classify_crd_changes (py_str (w_rt w)) changes else [])"
      by blast
    from pin have "rp_status pair = ''added''"
      by (simp add: installed_relevant_of_def pair_crds_nothing_installed)
    with diff_pair_results [OF rs mem] have "changes = []" by simp
    with ra show "cd_risk_annotations d = []" by simp
  qed
  with c have "\<not> pr_blocked (evaluate_policy r0 mode)"
    by (simp add: not_blocked_without_danger)
  with p show ?thesis by blast
qed

lemma discover_run_error:
  "w_run w ([''kubectl'', ''get'', ''crds'', ''-o'', ''yaml''] @ w_kube_flags w ko) = Inl (RunError m)
     \<Longrightarrow> discover_cluster_crds w ko = Inr []"
  by (simp add: discover_cluster_crds_def)

lemma fetch_run_error:
  "w_run w ([''kubectl'', ''get'', py_str (w_rt w) plural @ ''.'' @ py_str (w_rt w) grp,
             ''-A'', ''-o'', ''yaml''] @ w_kube_flags w ko) = Inl (RunError m)
     \<Longrightarrow> fetch_custom_resources w plural grp ko = Inr (VList [])"
  by (simp add: fetch_custom_resources_def)

lemma apply_server_side_all_fail:
  assumes "\<forall>res \<in> set rs. \<exists>m. w_server_side_dry_run w (w_yaml_dump w (res_body res)) ns ko = Inl (RunError m)"
  shows "apply_server_side w rs ns ko = Inr rs"
proof -
  have "mapE (server_side_one w ns ko) rs = Inr (map (\<lambda>r. r) rs)"
    by (rule mapE_total) (use assms in \<open>auto simp: server_side_one_def\<close>)
  then show ?thesis by (simp add: apply_server_side_def)
qed

lemma lift_not_run_error [simp]: "lift r \<noteq> Inl (RunError m)"
  by (cases r) (simp_all add: lift_def)

lemma lift_Inr [simp]: "lift r = Inr x \<longleftrightarrow> r = Inr x"
  by (cases r) (simp_all add: lift_def)

lemma bindE_Inl: "bindE m f = Inl e \<longleftrightarrow> m = Inl e \<or> (\<exists>x. m = Inr x \<and> f x = Inl e)"
  by (cases m) (simp_all add: bindE_def)

lemma diff_body_run_error:
  "(\<exists>m. diff_body w a = Inl (RunError m)) \<longleftrightarrow>
     (\<exists>m. w_get_manifest w (da_release a) (namespace_of a) (da_kube a) = Inl (RunError m)) \<or>
     (\<exists>live_yaml live m.
        w_get_manifest w (da_release a) (namespace_of a) (da_kube a) = Inr live_yaml \<and>
        w_parse_multi_doc w live_yaml (Some (namespace_of a)) = Inr live \<and>
        w_dry_run_upgrade w (da_release a) (da_chart a) (namespace_of a) (da_values a)
          (da_set_values a) (da_version a) (da_kube a) = Inl (RunError m))"
  by (auto simp: diff_body_def Let_def bindE_Inl bindE_Inr split: if_splits)

lemma diff_exit_one:
  "diff w a = Exit 1 \<longleftrightarrow>
     (\<exists>m. diff_body w a = Inl (RunError m)) \<or>
     (\<exists>crd_report. diff_body w a = Inr crd_report \<and> blocked_by_policy crd_report)"
  by (auto simp: diff_def split: sum.splits raised.splits if_splits)

lemma diff_exit_zero:
  "diff w a = Exit 0 \<longleftrightarrow> (\<exists>crd_report. diff_body w a = Inr crd_report \<and> \<not> blocked_by_policy crd_report)"
  by (auto simp: diff_def split: sum.splits raised.splits if_splits)

lemma diff_exit_range: "diff w a = Exit c \<Longrightarrow> c = 0 \<or> c = 1"
  by (auto simp: diff_def split: sum.splits raised.splits if_splits)

lemma diff_uncaught: "diff w a = Uncaught e \<longleftrightarrow> diff_body w a = Inl (Err e)"
  by (auto simp: diff_def split: sum.splits raised.splits if_splits)

lemma blocked_by_policy_iff:
  "blocked_by_policy crd_report \<longleftrightarrow>
     (\<exists>report p. crd_report = Some report \<and> policy_result report = Some p \<and> pr_blocked p)"
  by (auto simp: blocked_by_policy_def split: option.splits)

text \<open>
  Claim C8 as stated fails: the chart of the demo world has an unreadable file under
  crds/; the file is skipped and the other file is still read, but the report of the
  pipeline has no warning at all.
\<close>

theorem unreadable_crd_file_counterexample:
  "file_error demo_world ''chart/crds/broken.yaml'' = Some (OSError ''unreadable'') \<and>
   extract_crds_from_chart_dir demo_world ''chart'' = Inr [proposed_widgets] \<and>
   map_sum id warnings
     (run_crd_pipeline demo_world [proposed_gadgets] (Some ''chart'') WARN (Some ''web'') no_kube_opts)
     = Inr []"
  by code_simp

text \<open>
  Claim C8, amended. When reading CRDs from the chart's crds/ directory, a file whose
  reading or parsing raises \<open>OSError\<close> or \<open>yaml.YAMLError\<close> contributes nothing and the
  extraction goes on with the other files: the result is the CRDs of the readable
  \<open>*.yaml\<close> files in sorted order, then those of the \<open>*.yml\<close> files. The failure is
  not recorded: the warnings of a report are empty, or hold the one notice that no
  installed CRD could be retrieved.
\<close>

theorem unreadable_crd_files_are_skipped_silently:
  "(w_is_dir w (chart_path @ ''/crds'') \<and>
    (\<forall>f \<in> set (w_glob w (chart_path @ ''/crds'') ''*.yaml''
               @ w_glob w (chart_path @ ''/crds'') ''*.yml'').
       \<forall>e. file_error w f = Some e \<longrightarrow> skipped e) \<longrightarrow>
      extract_crds_from_chart_dir w chart_path =
        Inr (concat (map (file_crds w) (sort (w_glob w (chart_path @ ''/crds'') ''*.yaml'')))
             @ concat (map (file_crds w) (sort (w_glob w (chart_path @ ''/crds'') ''*.yml''))))) \<and>
   (file_error w f \<noteq> None \<longrightarrow> file_crds w f = []) \<and>
   (run_crd_pipeline w ur cp mode rel ko = Inr report \<longrightarrow>
      warnings report = [] \<or>
      (warnings report = [no_installed_warning] \<and> discover_cluster_crds w ko = Inr []))"
  using extract_skips [of w chart_path] file_crds_of_failed [of w f]
    pipeline_warnings [of w ur cp mode rel ko report]
  by blast

theorem unreadable_crd_files_are_skipped_silently_witness:
  "w_is_dir demo_world (''chart'' @ ''/crds'') \<and>
   file_error demo_world ''chart/crds/broken.yaml'' \<noteq> None \<and>
   file_crds demo_world ''chart/crds/broken.yaml'' = [] \<and>
   extract_crds_from_chart_dir demo_world ''chart'' =
     Inr (concat (map (file_crds demo_world) (sort (w_glob demo_world (''chart'' @ ''/crds'') ''*.yaml'')))
          @ concat (map (file_crds demo_world) (sort (w_glob demo_world (''chart'' @ ''/crds'') ''*.yml''))))"
proof -
  have d: "w_is_dir demo_world (''chart'' @ ''/crds'')" by code_simp
  have s: "\<forall>f \<in> set (w_glob demo_world (''chart'' @ ''/crds'') ''*.yaml''
               @ w_glob demo_world (''chart'' @ ''/crds'') ''*.yml'').
       \<forall>e. file_error demo_world f = Some e \<longrightarrow> skipped e"
    by (simp add: demo_world_def file_error_def)
  have e: "file_error demo_world ''chart/crds/broken.yaml'' \<noteq> None"
    by (simp add: demo_world_def file_error_def)
  from d s e
    unreadable_crd_files_are_skipped_silently
      [of demo_world "''chart''" "''chart/crds/broken.yaml''" "[]" None WARN None no_kube_opts empty_report]
  show ?thesis by blast
qed

text \<open>
  Claim C10. In every report that \<open>run_crd_pipeline\<close> returns, no detail has the status
  \<open>unchanged\<close> and a detail with the status \<open>changed\<close> has a non-empty list of
  changes; and a paired CRD whose installed and proposed bodies differ, but are
  semantically equal after the CRD noise is stripped and the bodies normalized, has no
  detail in the report.
\<close>

theorem changed_details_have_changes:
  "run_crd_pipeline w ur cp mode rel ko = Inr report \<longrightarrow>
     (\<forall>d \<in> set (crds report).
        cd_status d \<noteq> ''unchanged'' \<and> (cd_status d = ''changed'' \<longrightarrow> cd_changes d \<noteq> [])) \<and>
     (\<forall>proposed installed pair old new.
        proposed_crds_of w ur cp = Inr proposed \<and> discover_cluster_crds w ko = Inr installed \<and>
        pair \<in> set (pair_crds (installed_relevant_of proposed installed) proposed) \<and>
        rp_old pair = Some old \<and> rp_new pair = Some new \<and>
        \<not> py_eq (res_body old) (res_body new) \<and>
        w_is_semantically_equal w (cleaned_body w old) (cleaned_body w new) \<longrightarrow>
        (\<forall>d \<in> set (crds report). cd_name d \<noteq> res_name new))"
proof
  assume run: "run_crd_pipeline w ur cp mode rel ko = Inr report"
  from pipeline_details [OF run] show
    "(\<forall>d \<in> set (crds report).
        cd_status d \<noteq> ''unchanged'' \<and> (cd_status d = ''changed'' \<longrightarrow> cd_changes d \<noteq> [])) \<and>
     (\<forall>proposed installed pair old new.
        proposed_crds_of w ur cp = Inr proposed \<and> discover_cluster_crds w ko = Inr installed \<and>
        pair \<in> set (pair_crds (installed_relevant_of proposed installed) proposed) \<and>
        rp_old pair = Some old \<and> rp_new pair = Some new \<and>
        \<not> py_eq (res_body old) (res_body new) \<and>
        w_is_semantically_equal w (cleaned_body w old) (cleaned_body w new) \<longrightarrow>
        (\<forall>d \<in> set (crds report). cd_name d \<noteq> res_name new))"
  proof
    assume "proposed_crds_of w ur cp = Inr [] \<and> crds report = [] \<and> warnings report = []"
    then show ?thesis by simp
  next
    assume "\<exists>proposed installed diff_results.
            proposed_crds_of w ur cp = Inr proposed \<and> proposed \<noteq> [] \<and>
            discover_cluster_crds w ko = Inr installed \<and>
            diff_crds w (pair_crds (installed_relevant_of proposed installed) proposed) = Inr diff_results \<and>
            mapE (process_pair w rel ko) diff_results = Inr (crds report) \<and>
            warnings report = (if installed = [] then [no_installed_warning] else [])"
    then obtain proposed installed diff_results where
      pr: "proposed_crds_of w ur cp = Inr proposed" and
      ins: "discover_cluster_crds w ko = Inr installed" and
      df: "diff_crds w (pair_crds (installed_relevant_of proposed installed) proposed) = Inr diff_results" and
      mp: "mapE (process_pair w rel ko) diff_results = Inr (crds report)"
      by blast
    let ?pairs = "pair_crds (installed_relevant_of proposed installed) proposed"
    have first: "\<forall>d \<in> set (crds report).
        cd_status d \<noteq> ''unchanged'' \<and> (cd_status d = ''changed'' \<longrightarrow> cd_changes d \<noteq> [])"
    proof
      fix d assume "d \<in> set (crds report)"
      from pipeline_detail_origin [OF mp df this] obtain pair changes rs where
        rs: "diff_pair w pair = Inr rs" and mem: "(pair, changes) \<in> set rs" and
        st: "cd_status d = rp_status pair" and ch: "cd_changes d = changes"
        by blast
      from diff_pair_results [OF rs mem] st ch
      show "cd_status d \<noteq> ''unchanged'' \<and> (cd_status d = ''changed'' \<longrightarrow> cd_changes d \<noteq> [])"
        by (auto split: if_splits)
    qed
    have second: "\<forall>proposed' installed' pair old new.
        proposed_crds_of w ur cp = Inr proposed' \<and> discover_cluster_crds w ko = Inr installed' \<and>
        pair \<in> set (pair_crds (installed_relevant_of proposed' installed') proposed') \<and>
        rp_old pair = Some old \<and> rp_new pair = Some new \<and>
        \<not> py_eq (res_body old) (res_body new) \<and>
        w_is_semantically_equal w (cleaned_body w old) (cleaned_body w new) \<longrightarrow>
        (\<forall>d \<in> set (crds report). cd_name d \<noteq> res_name new)"
    proof (intro allI impI ballI)
      fix proposed' installed' pair old new d
      assume h: "proposed_crds_of w ur cp = Inr proposed' \<and> discover_cluster_crds w ko = Inr installed' \<and>
        pair \<in> set (pair_crds (installed_relevant_of proposed' installed') proposed') \<and>
        rp_old pair = Some old \<and> rp_new pair = Some new \<and>
        \<not> py_eq (res_body old) (res_body new) \<and>
        w_is_semantically_equal w (cleaned_body w old) (cleaned_body w new)"
        and dm: "d \<in> set (crds report)"
      from h pr ins have pin: "pair \<in> set ?pairs" by simp
      from h have o: "rp_old pair = Some old" and n: "rp_new pair = Some new" and
        ne: "\<not> py_eq (res_body old) (res_body new)" and
        se: "w_is_semantically_equal w (cleaned_body w old) (cleaned_body w new)" by simp_all
      from pair_crds_status [OF pin o n] ne have st: "rp_status pair = ''changed''" by simp
      from diff_pair_semantically_equal [OF o n st se] have none: "diff_pair w pair = Inr []" .
      from pair_crds_name [OF pin] obtain k where
        pk: "pair = pair_of (name_map (installed_relevant_of proposed installed)) (name_map proposed) k" and
        nk: "pair_name pair = Inr k" by blast
      from pair_new_name [OF pin n] nk have k: "k = res_name new" by simp
      show "cd_name d \<noteq> res_name new"
      proof
        assume eq: "cd_name d = res_name new"
        from pipeline_detail_origin [OF mp df dm] obtain p changes rs where
          p: "p \<in> set ?pairs" and rs: "diff_pair w p = Inr rs" and mem: "(p, changes) \<in> set rs" and
          pn: "pair_name p = Inr (cd_name d)"
          by blast
        from pair_crds_name [OF p] obtain k' where
          pk': "p = pair_of (name_map (installed_relevant_of proposed installed)) (name_map proposed) k'" and
          nk': "pair_name p = Inr k'" by blast
        from pn nk' eq k have "k' = k" by simp
        with pk pk' have "p = pair" by simp
        with rs none mem show False by simp
      qed
    qed
    from first second show ?thesis by blast
  qed
qed

theorem changed_details_have_changes_witness:
  "\<exists>report.
     run_crd_pipeline demo_world [proposed_gadgets] (Some ''chart'') FAIL (Some ''web'') no_kube_opts
       = Inr report \<and>
     map cd_name (crds report) = [''widgets.example.com''] \<and>
     (\<forall>d \<in> set (crds report). cd_status d = ''changed'' \<and> cd_changes d \<noteq> []) \<and>
     (\<forall>d \<in> set (crds report). cd_name d \<noteq> ''gadgets.example.com'')"
proof -
  let ?run = "run_crd_pipeline demo_world [proposed_gadgets] (Some ''chart'') FAIL (Some ''web'') no_kube_opts"
  let ?old = "\<lparr>res_api_version = ''apiextensions.k8s.io/v1'', res_kind = ''CustomResourceDefinition'',
               res_namespace = [], res_name = ''gadgets.example.com'',
               res_body = installed_gadgets_body, res_raw = []\<rparr>"
  let ?pair = "\<lparr>rp_old = Some ?old, rp_new = Some proposed_gadgets, rp_status = ''changed''\<rparr>"
  have names: "map_sum id (\<lambda>r. map cd_name (crds r)) ?run = Inr [''widgets.example.com'']"
    by code_simp
  have stat: "map_sum id (\<lambda>r. map cd_status (crds r)) ?run = Inr [''changed'']"
    by code_simp
  from names obtain report where run: "?run = Inr report"
    by (cases ?run) simp_all
  with names stat have n: "map cd_name (crds report) = [''widgets.example.com'']"
    and st: "map cd_status (crds report) = [''changed'']" by simp_all
  have p: "proposed_crds_of demo_world [proposed_gadgets] (Some ''chart'')
             = Inr [proposed_gadgets, proposed_widgets]"
    by code_simp
  have i: "discover_cluster_crds demo_world no_kube_opts = Inr [installed_widgets, ?old]"
    by code_simp
  have m: "?pair \<in> set (pair_crds
             (installed_relevant_of [proposed_gadgets, proposed_widgets] [installed_widgets, ?old])
             [proposed_gadgets, proposed_widgets])"
    by code_simp
  have ne: "\<not> py_eq (res_body ?old) (res_body proposed_gadgets)" by code_simp
  have se: "w_is_semantically_equal demo_world (cleaned_body demo_world ?old)
              (cleaned_body demo_world proposed_gadgets)"
    by code_simp
  note T = changed_details_have_changes
    [of demo_world "[proposed_gadgets]" "Some ''chart''" FAIL "Some ''web''" no_kube_opts report]
  from T run have a: "\<forall>d \<in> set (crds report).
        cd_status d \<noteq> ''unchanged'' \<and> (cd_status d = ''changed'' \<longrightarrow> cd_changes d \<noteq> [])"
    by blast
  from T run have "\<forall>proposed installed pair old new.
        proposed_crds_of demo_world [proposed_gadgets] (Some ''chart'') = Inr proposed \<and>
        discover_cluster_crds demo_world no_kube_opts = Inr installed \<and>
        pair \<in> set (pair_crds (installed_relevant_of proposed installed) proposed) \<and>
        rp_old pair = Some old \<and> rp_new pair = Some new \<and>
        \<not> py_eq (res_body old) (res_body new) \<and>
        w_is_semantically_equal demo_world (cleaned_body demo_world old) (cleaned_body demo_world new) \<longrightarrow>
        (\<forall>d \<in> set (crds report). cd_name d \<noteq> res_name new)"
    by blast
  from this p i m ne se have "\<forall>d \<in> set (crds report). cd_name d \<noteq> res_name proposed_gadgets"
    by (metis ResourcePair.select_convs(1) ResourcePair.select_convs(2))
  then have b: "\<forall>d \<in> set (crds report). cd_name d \<noteq> ''gadgets.example.com''"
    by (simp add: proposed_gadgets_def)
  from st have c: "\<forall>d \<in> set (crds report). cd_status d = ''changed''"
    by (cases "crds report") auto
  from run n a b c show ?thesis by auto
qed

lemma exit_status_one:
  "exit_status (diff w a) = 1 \<longleftrightarrow>
     (\<exists>m. diff_body w a = Inl (RunError m)) \<or>
     (\<exists>crd_report. diff_body w a = Inr crd_report \<and> blocked_by_policy crd_report) \<or>
     (\<exists>e. diff_body w a = Inl (Err e))"
  by (auto simp: diff_def split: sum.splits raised.splits if_splits)

lemma exit_status_zero:
  "exit_status (diff w a) = 0 \<longleftrightarrow>
     (\<exists>crd_report. diff_body w a = Inr crd_report \<and> \<not> blocked_by_policy crd_report)"
  by (auto simp: diff_def split: sum.splits raised.splits if_splits)

lemma exit_status_range: "exit_status (diff w a) = 0 \<or> exit_status (diff w a) = 1"
  by (auto simp: diff_def split: sum.splits raised.splits if_splits)

text \<open>
  Claim C2 as stated fails. In a world where the live manifest is fetched and the
  upgrade is rendered without a \<open>RunError\<close>, but \<open>parse_multi_doc\<close> rejects the
  rendered manifest, the exception is not a \<open>RunError\<close> and leaves the command
  uncaught: no CRD report is assembled, no policy blocks, and the process still ends
  with the status 1.
\<close>

theorem diff_uncaught_exception_counterexample:
  "w_get_manifest unparsable_world ''web'' ''default'' no_kube_opts = Inr ''live'' \<and>
   w_dry_run_upgrade unparsable_world ''web'' ''chart'' ''default'' [] [] None no_kube_opts
     = Inr ''rendered'' \<and>
   diff_body unparsable_world (demo_args ''warn'')
     = Inl (Err (ValueError ''resource without metadata.name'')) \<and>
   diff unparsable_world (demo_args ''warn'')
     = Uncaught (ValueError ''resource without metadata.name'') \<and>
   exit_status (diff unparsable_world (demo_args ''warn'')) = 1"
  by (simp add: diff_def diff_body_def unparsable_world_def demo_world_def demo_args_def
      namespace_of_def no_kube_opts_def bindE_def lift_def Let_def)

text \<open>
  Claim C2, amended. The process ends with the status 1 exactly when \<open>get_manifest\<close> or
  \<open>dry_run_upgrade\<close> fails with \<open>RunError\<close>, or the CRD report that was assembled has
  a blocking policy result, or an exception other than \<open>RunError\<close> is raised in the
  \<open>try\<close> block (the command does not catch it); it ends with the status 0 exactly
  when the \<open>try\<close> block completes without a block; there is no other status. The
  command itself calls \<open>sys.exit(1)\<close> exactly in the first two cases. The failures it
  absorbs do not, by themselves, lead to a non-zero exit: when every server-side dry run
  fails the rendered resources are used, when the discovery of installed CRDs fails the
  installed set is empty and the policy does not block, and when fetching custom
  resources fails there is nothing to validate.
\<close>

theorem diff_exit_codes:
  "(exit_status (diff w a) = 1 \<longleftrightarrow>
      (\<exists>m. w_get_manifest w (da_release a) (namespace_of a) (da_kube a) = Inl (RunError m)) \<or>
      (\<exists>live_yaml live m.
         w_get_manifest w (da_release a) (namespace_of a) (da_kube a) = Inr live_yaml \<and>
         w_parse_multi_doc w live_yaml (Some (namespace_of a)) = Inr live \<and>
         w_dry_run_upgrade w (da_release a) (da_chart a) (namespace_of a) (da_values a)
           (da_set_values a) (da_version a) (da_kube a) = Inl (RunError m)) \<or>
      (\<exists>report p. diff_body w a = Inr (Some report) \<and> policy_result report = Some p \<and> pr_blocked p) \<or>
      (\<exists>e. diff_body w a = Inl (Err e))) \<and>
   (exit_status (diff w a) = 0 \<longleftrightarrow>
      (\<exists>crd_report. diff_body w a = Inr crd_report \<and> \<not> blocked_by_policy crd_report)) \<and>
   (exit_status (diff w a) = 0 \<or> exit_status (diff w a) = 1) \<and>
   (diff w a = Exit 1 \<longleftrightarrow>
      (\<exists>m. w_get_manifest w (da_release a) (namespace_of a) (da_kube a) = Inl (RunError m)) \<or>
      (\<exists>live_yaml live m.
         w_get_manifest w (da_release a) (namespace_of a) (da_kube a) = Inr live_yaml \<and>
         w_parse_multi_doc w live_yaml (Some (namespace_of a)) = Inr live \<and>
         w_dry_run_upgrade w (da_release a) (da_chart a) (namespace_of a) (da_values a)
           (da_set_values a) (da_version a) (da_kube a) = Inl (RunError m)) \<or>
      (\<exists>report p. diff_body w a = Inr (Some report) \<and> policy_result report = Some p \<and> pr_blocked p)) \<and>
   (\<forall>e. diff w a = Uncaught e \<longleftrightarrow> diff_body w a = Inl (Err e)) \<and>
   ((\<forall>res \<in> set rs. \<exists>m. w_server_side_dry_run w (w_yaml_dump w (res_body res)) ns ko = Inl (RunError m))
      \<longrightarrow> apply_server_side w rs ns ko = Inr rs) \<and>
   ((\<exists>m. w_run w ([''kubectl'', ''get'', ''crds'', ''-o'', ''yaml''] @ w_kube_flags w ko) = Inl (RunError m))
      \<longrightarrow> discover_cluster_crds w ko = Inr [] \<and>
          (run_crd_pipeline w ur cp mode rel ko = Inr report \<longrightarrow>
             (\<exists>p. policy_result report = Some p \<and> \<not> pr_blocked p))) \<and>
   ((\<exists>m. w_run w ([''kubectl'', ''get'', py_str (w_rt w) plural @ ''.'' @ py_str (w_rt w) grp,
                    ''-A'', ''-o'', ''yaml''] @ w_kube_flags w ko) = Inl (RunError m))
      \<longrightarrow> fetch_custom_resources w plural grp ko = Inr (VList []))"
proof -
  have one: "diff w a = Exit 1 \<longleftrightarrow>
      (\<exists>m. w_get_manifest w (da_release a) (namespace_of a) (da_kube a) = Inl (RunError m)) \<or>
      (\<exists>live_yaml live m.
         w_get_manifest w (da_release a) (namespace_of a) (da_kube a) = Inr live_yaml \<and>
         w_parse_multi_doc w live_yaml (Some (namespace_of a)) = Inr live \<and>
         w_dry_run_upgrade w (da_release a) (da_chart a) (namespace_of a) (da_values a)
           (da_set_values a) (da_version a) (da_kube a) = Inl (RunError m)) \<or>
      (\<exists>report p. diff_body w a = Inr (Some report) \<and> policy_result report = Some p \<and> pr_blocked p)"
    unfolding diff_exit_one diff_body_run_error blocked_by_policy_iff by blast
  have status: "exit_status (diff w a) = 1 \<longleftrightarrow>
      (\<exists>m. w_get_manifest w (da_release a) (namespace_of a) (da_kube a) = Inl (RunError m)) \<or>
      (\<exists>live_yaml live m.
         w_get_manifest w (da_release a) (namespace_of a) (da_kube a) = Inr live_yaml \<and>
         w_parse_multi_doc w live_yaml (Some (namespace_of a)) = Inr live \<and>
         w_dry_run_upgrade w (da_release a) (da_chart a) (namespace_of a) (da_values a)
           (da_set_values a) (da_version a) (da_kube a) = Inl (RunError m)) \<or>
      (\<exists>report p. diff_body w a = Inr (Some report) \<and> policy_result report = Some p \<and> pr_blocked p) \<or>
      (\<exists>e. diff_body w a = Inl (Err e))"
    unfolding exit_status_one diff_body_run_error blocked_by_policy_iff by blast
  have disc: "(\<exists>m. w_run w ([''kubectl'', ''get'', ''crds'', ''-o'', ''yaml''] @ w_kube_flags w ko) = Inl (RunError m))
      \<longrightarrow> discover_cluster_crds w ko = Inr [] \<and>
          (run_crd_pipeline w ur cp mode rel ko = Inr report \<longrightarrow>
             (\<exists>p. policy_result report = Some p \<and> \<not> pr_blocked p))"
    using discover_run_error [of w ko] discovery_failure_never_blocks [of w ur cp mode rel ko report]
    by blast
  have absorbed: "((\<forall>res \<in> set rs. \<exists>m. w_server_side_dry_run w (w_yaml_dump w (res_body res)) ns ko = Inl (RunError m))
      \<longrightarrow> apply_server_side w rs ns ko = Inr rs) \<and>
   ((\<exists>m. w_run w ([''kubectl'', ''get'', py_str (w_rt w) plural @ ''.'' @ py_str (w_rt w) grp,
                    ''-A'', ''-o'', ''yaml''] @ w_kube_flags w ko) = Inl (RunError m))
      \<longrightarrow> fetch_custom_resources w plural grp ko = Inr (VList []))"
    using apply_server_side_all_fail [of rs w ns ko] fetch_run_error [of w plural grp ko]
    by blast
  from status one disc absorbed show ?thesis
    using exit_status_zero [of w a] exit_status_range [of w a] diff_uncaught [of w a]
    by blast
qed

theorem diff_exit_codes_witness:
  "exit_status (diff unreachable_world (demo_args ''warn'')) = 1 \<and>
   exit_status (diff demo_world (demo_args ''fail'')) = 1 \<and>
   exit_status (diff unparsable_world (demo_args ''warn'')) = 1 \<and>
   exit_status (diff demo_world (demo_args ''warn'')) = 0 \<and>
   diff demo_world (demo_args ''fail'') = Exit 1 \<and>
   apply_server_side demo_world [proposed_gadgets] ''default'' no_kube_opts = Inr [proposed_gadgets]"
proof -
  have g: "\<exists>m. w_get_manifest unreachable_world (da_release (demo_args ''warn''))
             (namespace_of (demo_args ''warn'')) (da_kube (demo_args ''warn'')) = Inl (RunError m)"
    by (simp add: unreachable_world_def)
  from g diff_exit_codes [of unreachable_world "demo_args ''warn''", THEN conjunct1]
  have a: "exit_status (diff unreachable_world (demo_args ''warn'')) = 1" by blast
  have blocked: "map_sum id blocked_by_policy (diff_body demo_world (demo_args ''fail'')) = Inr True"
    by code_simp
  then obtain rep where r: "diff_body demo_world (demo_args ''fail'') = Inr rep" and bl: "blocked_by_policy rep"
    by (cases "diff_body demo_world (demo_args ''fail'')") auto
  from bl obtain report p where rp: "rep = Some report" "policy_result report = Some p" "pr_blocked p"
    by (auto simp: blocked_by_policy_iff)
  with r diff_exit_codes [of demo_world "demo_args ''fail''", THEN conjunct1]
  have b: "exit_status (diff demo_world (demo_args ''fail'')) = 1" by blast
  from rp r diff_exit_codes [of demo_world "demo_args ''fail''",
      THEN conjunct2, THEN conjunct2, THEN conjunct2, THEN conjunct1]
  have b': "diff demo_world (demo_args ''fail'') = Exit 1" by blast
  have u: "\<exists>e. diff_body unparsable_world (demo_args ''warn'') = Inl (Err e)"
    by (simp add: diff_body_def unparsable_world_def demo_world_def demo_args_def
      namespace_of_def no_kube_opts_def bindE_def lift_def Let_def)
  from u diff_exit_codes [of unparsable_world "demo_args ''warn''", THEN conjunct1]
  have x: "exit_status (diff unparsable_world (demo_args ''warn'')) = 1" by blast
  have passed: "map_sum id blocked_by_policy (diff_body demo_world (demo_args ''warn'')) = Inr False"
    by code_simp
  then obtain rep' where "diff_body demo_world (demo_args ''warn'') = Inr rep'" "\<not> blocked_by_policy rep'"
    by (cases "diff_body demo_world (demo_args ''warn'')") auto
  with diff_exit_codes [of demo_world "demo_args ''warn''", THEN conjunct2, THEN conjunct1]
  have c: "exit_status (diff demo_world (demo_args ''warn'')) = 0" by blast
  have f: "\<forall>res \<in> set [proposed_gadgets]. \<exists>m.
      w_server_side_dry_run demo_world (w_yaml_dump demo_world (res_body res)) ''default'' no_kube_opts
        = Inl (RunError m)"
    by (simp add: demo_world_def)
  from f diff_exit_codes [of demo_world "demo_args ''warn''" "[proposed_gadgets]" "''default''" no_kube_opts,
      THEN conjunct2, THEN conjunct2, THEN conjunct2, THEN conjunct2, THEN conjunct2, THEN conjunct1]
  have d: "apply_server_side demo_world [proposed_gadgets] ''default'' no_kube_opts = Inr [proposed_gadgets]"
    by blast
  from a b x c b' d show ?thesis by simp
qed

end
